theory Spec2Isabelle
  imports Complex_Main "HOL-Library.AList"
begin

section \<open>Python values, dictionaries and errors\<close>

text \<open>
  The model is a shallow embedding of
  \<^verbatim>\<open>autogluon/timeseries/models/abstract/abstract_timeseries_model.py\<close>.
  Python floats are modelled by the rational number they denote (\<^typ>\<open>rat\<close>): the code only
  compares, sorts, multiplies and subtracts them, and a NaN fails every comparison of the
  code, so it is rejected wherever a level is checked. Exceptions are values of
  \<open>error\<close>; \<open>Inl\<close> is a raise.
\<close>

datatype error =
    ValueError
  | AssertionError
  | TypeError
  | TimeLimitExceeded
  | FileNotFoundError
  | AttributeError
  | KeyError
  | ExternalError nat

text \<open>
  Dictionary keys: the code only asks whether a key is a \<^verbatim>\<open>str\<close>; \<open>KInt\<close> stands for
  the hashable keys that are not.
\<close>

datatype pykey = KStr string | KInt int

text \<open>
  Values found in hyperparameter dictionaries and keyword arguments. \<open>PySpace\<close> is an
  instance of \<^verbatim>\<open>autogluon.common.space.Space\<close>, \<open>PyObj\<close> any other object. A dictionary
  is an association list in insertion order; the first binding of a key is the binding.
\<close>

datatype pyval =
    PyNone
  | PyNum rat
  | PyStr string
  | PyDict "(pykey \<times> pyval) list"
  | PySpace nat
  | PyObj nat

type_synonym pydict = "(pykey \<times> pyval) list"

text \<open>\<^verbatim>\<open>d.pop(k, default)\<close>: the value bound to \<open>k\<close> (or the default) and \<open>d\<close> without \<open>k\<close>.\<close>

definition dict_pop :: "'k \<Rightarrow> 'v \<Rightarrow> ('k \<times> 'v) list \<Rightarrow> 'v \<times> ('k \<times> 'v) list" where
  "dict_pop k dflt d =
     ((case map_of d k of None \<Rightarrow> dflt | Some v \<Rightarrow> v), AList.delete k d)"

text \<open>\<^verbatim>\<open>d.get(k, default)\<close>; \<^verbatim>\<open>d.get(k)\<close> is \<open>dict_get k PyNone d\<close>.\<close>

definition dict_get :: "'k \<Rightarrow> 'v \<Rightarrow> ('k \<times> 'v) list \<Rightarrow> 'v" where
  "dict_get k dflt d = (case map_of d k of None \<Rightarrow> dflt | Some v \<Rightarrow> v)"

text \<open>
  \<^verbatim>\<open>a | b\<close> and \<^verbatim>\<open>{**a, **b}\<close>: a copy of \<open>a\<close> updated with every item of \<open>b\<close> in turn;
  a key of \<open>a\<close> keeps its place and takes the value of \<open>b\<close>, a new key is appended.
\<close>

definition dict_union :: "('k \<times> 'v) list \<Rightarrow> ('k \<times> 'v) list \<Rightarrow> ('k \<times> 'v) list" where
  "dict_union a b = fold (\<lambda>(k, v). AList.update k v) b a"

text \<open>Log records emitted through the module logger.\<close>

datatype log_event =
    NoPathInfo string
  | NonStrKeyWarning pykey

section \<open>Paths and strings\<close>

text \<open>\<^verbatim>\<open>os.path.join(a, b)\<close> and \<^verbatim>\<open>os.path.dirname(p)\<close> of \<^verbatim>\<open>posixpath\<close>.\<close>

definition path_join :: "string \<Rightarrow> string \<Rightarrow> string" where
  "path_join a b =
     (if b \<noteq> [] \<and> hd b = CHR ''/'' then b
      else if a = [] \<or> last a = CHR ''/'' then a @ b
      else a @ ''/'' @ b)"

definition rstrip_slash :: "string \<Rightarrow> string" where
  "rstrip_slash s = rev (dropWhile (\<lambda>c. c = CHR ''/'') (rev s))"

definition path_dirname :: "string \<Rightarrow> string" where
  "path_dirname p =
     (let head = rev (dropWhile (\<lambda>c. c \<noteq> CHR ''/'') (rev p))
      in if head \<noteq> [] \<and> \<not> list_all (\<lambda>c. c = CHR ''/'') head then rstrip_slash head else head)"

text \<open>
  \<open>split_first sep s\<close> cuts \<open>s\<close> at the first occurrence of \<open>sep\<close>;
  \<^verbatim>\<open>s.rsplit(sep, 1)[0]\<close> is the part of \<open>s\<close> before the last occurrence of \<open>sep\<close>, all of
  \<open>s\<close> when there is none, and a \<^verbatim>\<open>ValueError\<close> for the empty separator.
\<close>

fun split_first :: "string \<Rightarrow> string \<Rightarrow> (string \<times> string) option" where
  "split_first sep [] = (if sep = [] then Some ([], []) else None)"
| "split_first sep (c # cs) =
     (if take (length sep) (c # cs) = sep then Some ([], drop (length sep) (c # cs))
      else map_option (\<lambda>(b, a). (c # b, a)) (split_first sep cs))"

definition rsplit1_head :: "string \<Rightarrow> string \<Rightarrow> error + string" where
  "rsplit1_head sep s =
     (if sep = [] then Inl ValueError
      else case split_first (rev sep) (rev s) of
             None \<Rightarrow> Inr s
           | Some (b, a) \<Rightarrow> Inr (rev a))"

text \<open>\<^verbatim>\<open>re.sub(r"Model$", "", s)\<close> on a class name: a trailing \<^verbatim>\<open>Model\<close> is removed.\<close>

definition strip_Model :: "string \<Rightarrow> string" where
  "strip_Model s =
     (if length s \<ge> 5 \<and> drop (length s - 5) s = ''Model'' then take (length s - 5) s else s)"

section \<open>The model class and its instances\<close>

text \<open>
  Modelled from the spec: the constants \<^verbatim>\<open>AG_ARGS_FIT\<close> and \<^verbatim>\<open>REFIT_FULL_SUFFIX\<close> of
  \<^verbatim>\<open>autogluon.core.constants\<close> are imported by the module and not defined in it: the
  reserved key under which auxiliary arguments are passed, and the suffix that denotes a
  model refit on the full data.
\<close>

definition AG_ARGS_FIT :: string where
  "AG_ARGS_FIT = ''ag_args_fit''"

definition REFIT_FULL_SUFFIX :: string where
  "REFIT_FULL_SUFFIX = ''_FULL''"

text \<open>
  Modelled from the spec: \<^verbatim>\<open>CovariateMetadata\<close> and the evaluation metric are collaborators
  defined elsewhere; the module reads the flag \<^verbatim>\<open>optimized_by_median\<close> of the metric and
  passes the metadata on.
\<close>

record covariate_metadata =
  known_covariates :: "string list"
  past_covariates :: "string list"
  static_features :: "string list"

definition CovariateMetadata :: covariate_metadata where
  "CovariateMetadata = \<lparr>known_covariates = [], past_covariates = [], static_features = []\<rparr>"

record eval_metric =
  metric_name :: string
  optimized_by_median :: bool

text \<open>
  The class attributes a subclass may override, and the methods with a default body that a
  subclass may override (\<^verbatim>\<open>_get_default_hyperparameters\<close>, \<^verbatim>\<open>_get_tags\<close>).
\<close>

record model_class =
  class_name :: string
  covariate_regressor_fit_time_fraction :: rat
  default_max_time_limit_ratio :: rat
  cls_supports_known_covariates :: bool
  cls_supports_past_covariates :: bool
  cls_supports_static_features :: bool
  get_default_hyperparameters :: pydict
  can_use_train_data :: bool
  can_use_val_data :: bool

text \<open>The attribute values of \<^verbatim>\<open>TimeSeriesModelBase\<close> itself, for a class of the given name.\<close>

definition TimeSeriesModelBase :: "string \<Rightarrow> model_class" where
  "TimeSeriesModelBase cn =
     \<lparr>class_name = cn,
      covariate_regressor_fit_time_fraction = 1 / 2,
      default_max_time_limit_ratio = 9 / 10,
      cls_supports_known_covariates = False,
      cls_supports_past_covariates = False,
      cls_supports_static_features = False,
      get_default_hyperparameters = [],
      can_use_train_data = True,
      can_use_val_data = False\<rparr>"

text \<open>
  The instance attributes set by \<^verbatim>\<open>TimeSeriesModelBase.__init__\<close>. \<open>'p\<close> is the type of a
  table of predictions; the state a subclass adds is the extension of the record.
\<close>

record 'p model_base =
  name :: string
  path_root :: string
  path :: string
  eval_metric :: eval_metric
  target :: string
  covariate_metadata :: covariate_metadata
  freq :: "string option"
  prediction_length :: int
  quantile_levels :: "rat list"
  must_drop_median :: bool
  oof_predictions :: "'p list option"
  hyperparameters :: pydict
  extra_ag_args :: pydict
  fit_time :: "rat option"
  predict_time :: "rat option"
  predict_1_time :: "rat option"
  val_score :: "rat option"

section \<open>Construction\<close>

text \<open>
  \<^verbatim>\<open>_check_and_split_hyperparameters\<close>: the log it writes and its result. The argument is
  \<open>None\<close> or any Python value; the assertion rejects what is not a dictionary.
\<close>

definition check_and_split_hyperparameters ::
  "pyval option \<Rightarrow> log_event list \<times> (error + pydict \<times> pydict)" where
  "check_and_split_hyperparameters hp =
     (case (case hp of None \<Rightarrow> PyDict [] | Some v \<Rightarrow> v) of
        PyDict d \<Rightarrow>
          (let warnings = map NonStrKeyWarning (filter (\<lambda>k. case k of KStr _ \<Rightarrow> False | _ \<Rightarrow> True) (map fst d));
               (extra, d') = dict_pop (KStr AG_ARGS_FIT) (PyDict []) d
           in case extra of
                PyDict e \<Rightarrow> (warnings, Inr (d', e))
              | _ \<Rightarrow> (warnings, Inl ValueError))
      | _ \<Rightarrow> ([], Inl AssertionError))"

text \<open>
  The collaborators of the constructor: \<^verbatim>\<open>setup_outputdir\<close> (called with the path suffix
  when no path is given) and \<^verbatim>\<open>check_get_evaluation_metric\<close>.
\<close>

record 'e init_env =
  setup_outputdir :: "string \<Rightarrow> string"
  check_get_evaluation_metric :: "'e \<Rightarrow> int \<Rightarrow> error + eval_metric"

text \<open>
  The quantile levels kept by the constructor and the flag \<^verbatim>\<open>must_drop_median\<close>
  (lines 108 to 119): the check, then the median added when it is missing.
\<close>

definition init_quantile_levels :: "rat list \<Rightarrow> error + rat list \<times> bool" where
  "init_quantile_levels qs =
     (if \<not> list_all (\<lambda>q. 0 < q \<and> q < 1) qs then Inl ValueError
      else if 1 / 2 \<notin> set qs then Inr (sort (remdups ((1 / 2) # qs)), True)
      else Inr (qs, False))"

text \<open>\<^verbatim>\<open>TimeSeriesModelBase.__init__\<close>: the log and the instance, or the error raised.\<close>

definition init ::
  "model_class \<Rightarrow> 'e init_env \<Rightarrow> string option \<Rightarrow> string option \<Rightarrow> pyval option \<Rightarrow>
   string option \<Rightarrow> int \<Rightarrow> covariate_metadata option \<Rightarrow> string \<Rightarrow> rat list \<Rightarrow> 'e \<Rightarrow>
   log_event list \<times> (error + 'p model_base)" where
  "init cls env path_arg name_arg hp freq_arg pl cm tgt qs em =
     (let nm = (case name_arg of None \<Rightarrow> strip_Model (class_name cls)
                | Some n \<Rightarrow> if n = [] then strip_Model (class_name cls) else n);
          root_r = (case path_arg of
                      Some p \<Rightarrow> ([], Inr p)
                    | None \<Rightarrow>
                        (case rsplit1_head nm (setup_outputdir env nm) of
                           Inl e \<Rightarrow> ([], Inl e)
                         | Inr r \<Rightarrow> ([NoPathInfo r], Inr r)))
      in case snd root_r of
           Inl e \<Rightarrow> (fst root_r, Inl e)
         | Inr rootp \<Rightarrow>
             (case check_get_evaluation_metric env em pl of
                Inl e \<Rightarrow> (fst root_r, Inl e)
              | Inr metric \<Rightarrow>
                  (case init_quantile_levels qs of
                     Inl e \<Rightarrow> (fst root_r, Inl e)
                   | Inr (levels, drop_median) \<Rightarrow>
                       (case check_and_split_hyperparameters hp of
                          (ws, Inl e) \<Rightarrow> (fst root_r @ ws, Inl e)
                        | (ws, Inr (h, extra)) \<Rightarrow>
                            (fst root_r @ ws,
                             Inr \<lparr>name = nm,
                                  path_root = rootp,
                                  path = path_join rootp nm,
                                  eval_metric = metric,
                                  target = tgt,
                                  covariate_metadata = (case cm of None \<Rightarrow> CovariateMetadata | Some c \<Rightarrow> c),
                                  freq = freq_arg,
                                  prediction_length = pl,
                                  quantile_levels = levels,
                                  must_drop_median = drop_median,
                                  oof_predictions = None,
                                  hyperparameters = h,
                                  extra_ag_args = extra,
                                  fit_time = None,
                                  predict_time = None,
                                  predict_1_time = None,
                                  val_score = None\<rparr>)))))"

section \<open>Hyperparameters and capabilities\<close>

text \<open>\<^verbatim>\<open>get_hyperparameters\<close>: the defaults of the class updated with the user's values.\<close>

definition get_hyperparameters :: "model_class \<Rightarrow> ('p, 'z) model_base_scheme \<Rightarrow> pydict" where
  "get_hyperparameters cls self = dict_union (get_default_hyperparameters cls) (hyperparameters self)"

definition supports_known_covariates :: "model_class \<Rightarrow> ('p, 'z) model_base_scheme \<Rightarrow> bool" where
  "supports_known_covariates cls self \<longleftrightarrow>
     dict_get (KStr ''covariate_regressor'') PyNone (get_hyperparameters cls self) \<noteq> PyNone
     \<or> cls_supports_known_covariates cls"

definition supports_past_covariates :: "model_class \<Rightarrow> ('p, 'z) model_base_scheme \<Rightarrow> bool" where
  "supports_past_covariates cls self \<longleftrightarrow> cls_supports_past_covariates cls"

definition supports_static_features :: "model_class \<Rightarrow> ('p, 'z) model_base_scheme \<Rightarrow> bool" where
  "supports_static_features cls self \<longleftrightarrow>
     dict_get (KStr ''covariate_regressor'') PyNone (get_hyperparameters cls self) \<noteq> PyNone
     \<or> cls_supports_static_features cls"

section \<open>Persistence and identity\<close>

text \<open>
  The file system as far as \<^verbatim>\<open>save_pkl\<close> and \<^verbatim>\<open>load_pkl\<close> use it: a map from file paths to
  pickled objects, a model or a list of out-of-fold predictions. Saving binds the path;
  loading a path that is not bound raises.
\<close>

datatype ('m, 'p) artifact = ModelPickle 'm | OofPickle "'p list"

type_synonym ('m, 'p) filesystem = "string \<Rightarrow> ('m, 'p) artifact option"

definition model_file_name :: string where
  "model_file_name = ''model.pkl''"

definition oof_filename :: string where
  "oof_filename = ''oof.pkl''"

definition oof_path :: "string \<Rightarrow> string" where
  "oof_path p = path_join (path_join p ''utils'') oof_filename"

definition rename :: "('p, 'z) model_base_scheme \<Rightarrow> string \<Rightarrow> ('p, 'z) model_base_scheme" where
  "rename self nm =
     (if name self \<noteq> []
      then self\<lparr>path := path_join (path_dirname (path self)) nm, name := nm\<rparr>
      else self\<lparr>path := path_join (path self) nm, name := nm\<rparr>)"

definition set_contexts ::
  "('p, 'z) model_base_scheme \<Rightarrow> string \<Rightarrow> error + ('p, 'z) model_base_scheme" where
  "set_contexts self path_context =
     (case rsplit1_head (name self) path_context of
        Inl e \<Rightarrow> Inl e
      | Inr r \<Rightarrow> Inr (self\<lparr>path := path_context, path_root := r\<rparr>))"

text \<open>
  \<^verbatim>\<open>save\<close>: the path returned, the instance after the call and the file system after the
  call.
\<close>

definition save ::
  "('p, 'z) model_base_scheme \<Rightarrow> string option \<Rightarrow>
   (('p, 'z) model_base_scheme, 'p) filesystem \<Rightarrow>
   string \<times> ('p, 'z) model_base_scheme \<times> (('p, 'z) model_base_scheme, 'p) filesystem" where
  "save self path_arg fs =
     (let p = (case path_arg of None \<Rightarrow> path self | Some q \<Rightarrow> q);
          fs1 = (case oof_predictions self of
                   None \<Rightarrow> fs
                 | Some oof \<Rightarrow> fs(oof_path p \<mapsto> OofPickle oof));
          oof = oof_predictions self;
          self1 = self\<lparr>oof_predictions := None\<rparr>;
          file_path = path_join p model_file_name;
          fs2 = fs1(file_path \<mapsto> ModelPickle self1);
          self2 = self1\<lparr>oof_predictions := oof\<rparr>
      in (p, self2, fs2))"

definition load_oof_predictions ::
  "string \<Rightarrow> ('m, 'p) filesystem \<Rightarrow> error + 'p list" where
  "load_oof_predictions p fs =
     (case fs (oof_path p) of
        None \<Rightarrow> Inl FileNotFoundError
      | Some (OofPickle oof) \<Rightarrow> Inr oof
      | Some (ModelPickle _) \<Rightarrow> Inl TypeError)"

definition load ::
  "string \<Rightarrow> bool \<Rightarrow> bool \<Rightarrow> (('p, 'z) model_base_scheme, 'p) filesystem \<Rightarrow>
   error + ('p, 'z) model_base_scheme" where
  "load p reset_paths load_oof fs =
     (case fs (path_join p model_file_name) of
        None \<Rightarrow> Inl FileNotFoundError
      | Some (OofPickle _) \<Rightarrow> Inl AttributeError
      | Some (ModelPickle model) \<Rightarrow>
          (case (if reset_paths then set_contexts model p else Inr model) of
             Inl e \<Rightarrow> Inl e
           | Inr model1 \<Rightarrow>
               if load_oof \<and> oof_predictions model1 = None
               then (case load_oof_predictions p fs of
                       Inl e \<Rightarrow> Inl e
                     | Inr oof \<Rightarrow> Inr (model1\<lparr>oof_predictions := Some oof\<rparr>))
               else Inr model1))"

text \<open>
  \<^verbatim>\<open>convert_to_refit_full_via_copy\<close>: the model returned, the instance after the call and the
  file system after the call.
\<close>

definition convert_to_refit_full_via_copy ::
  "('p, 'z) model_base_scheme \<Rightarrow> (('p, 'z) model_base_scheme, 'p) filesystem \<Rightarrow>
   error + ('p, 'z) model_base_scheme \<times> ('p, 'z) model_base_scheme \<times>
           (('p, 'z) model_base_scheme, 'p) filesystem" where
  "convert_to_refit_full_via_copy self fs =
     (let previous_name = name self;
          self1 = rename self (name self @ REFIT_FULL_SUFFIX);
          refit_model_path = path self1;
          (_, self2, fs1) = save self1 (Some (path self1)) fs;
          self3 = rename self2 previous_name
      in case load refit_model_path True False fs1 of
           Inl e \<Rightarrow> Inl e
         | Inr refit_model \<Rightarrow>
             Inr (refit_model\<lparr>val_score := None, predict_time := None\<rparr>, self3, fs1))"

section \<open>Tables of predictions\<close>

text \<open>
  A table of predictions as far as \<^verbatim>\<open>predict\<close> looks at it: its columns in order, each a
  label and its content; \<open>None\<close> is the content of a column that reindexing created. The
  operations are those of \<^verbatim>\<open>pandas\<close> that \<^verbatim>\<open>predict\<close> calls: reindexing a frame whose labels
  are not unique raises, and so does assigning a selection of several columns to one column.
\<close>

type_synonym 'c table = "(string \<times> 'c option) list"

definition columns :: "'c table \<Rightarrow> string list" where
  "columns t = map fst t"

definition reindex :: "string list \<Rightarrow> 'c table \<Rightarrow> error + 'c table" where
  "reindex column_order t =
     (if \<not> distinct (columns t) then Inl ValueError
      else Inr (map (\<lambda>c. (c, case map_of t c of None \<Rightarrow> None | Some col \<Rightarrow> col)) column_order))"

definition setitem :: "string \<Rightarrow> 'c option \<Rightarrow> 'c table \<Rightarrow> 'c table" where
  "setitem c v t =
     (if c \<in> set (columns t) then map (\<lambda>(k, x). if k = c then (k, v) else (k, x)) t
      else t @ [(c, v)])"

text \<open>\<^verbatim>\<open>predictions[dst] = predictions[src]\<close>.\<close>

definition assign_column :: "string \<Rightarrow> string \<Rightarrow> 'c table \<Rightarrow> error + 'c table" where
  "assign_column dst src t =
     (case map_of t src of
        None \<Rightarrow> Inl KeyError
      | Some col \<Rightarrow>
          if length (filter (\<lambda>k. k = src) (columns t)) > 1 then Inl ValueError
          else Inr (setitem dst col t))"

definition drop_column :: "string \<Rightarrow> 'c table \<Rightarrow> 'c table" where
  "drop_column c t = filter (\<lambda>(k, x). k \<noteq> c) t"

section \<open>Transforms and the time series model\<close>

text \<open>
  The target scaler, the covariate scaler and the covariate regressor are collaborators:
  each is the record of the methods the module calls, as functions of the data (\<open>'d\<close>) and
  of the predictions. What fitting changes inside a collaborator, and a raise inside one, are
  not modelled. The inverse transform of the regressor takes the predictions, the known
  covariates and the data whose static features it reads.
\<close>

record ('d, 'c) target_scaler =
  ts_fit_transform :: "'d \<Rightarrow> 'd"
  ts_transform :: "'d \<Rightarrow> 'd"
  ts_inverse_transform :: "'c table \<Rightarrow> 'c table"

record 'd covariate_scaler =
  cs_fit_transform :: "'d \<Rightarrow> 'd"
  cs_transform :: "'d \<Rightarrow> 'd"
  cs_transform_known_covariates :: "'d option \<Rightarrow> 'd option"

record ('d, 'c) covariate_regressor =
  cr_fit_transform :: "'d \<Rightarrow> 'd"
  cr_transform :: "'d \<Rightarrow> 'd"
  cr_inverse_transform :: "'c table \<Rightarrow> 'd \<Rightarrow> 'd \<Rightarrow> 'c table"

record ('d, 'c) transforms =
  target_scaler :: "('d, 'c) target_scaler option"
  covariate_scaler :: "'d covariate_scaler option"
  covariate_regressor :: "('d, 'c) covariate_regressor option"

text \<open>
  \<^verbatim>\<open>AbstractTimeSeriesModel\<close> declares the three transform attributes and assigns them in
  \<^verbatim>\<open>_initialize_transforms_and_regressor\<close>: \<open>transforms\<close> is \<open>None\<close> until then.
\<close>

record ('d, 'c) abstract_model = "('c table) model_base" +
  transforms :: "('d, 'c) transforms option"

text \<open>
  What \<^verbatim>\<open>fit\<close> and \<^verbatim>\<open>predict\<close> take from outside the module: the three factories, the
  resource manager, the clock (\<open>elapsed\<close> is \<^verbatim>\<open>time.monotonic() - start_time\<close> when \<^verbatim>\<open>fit\<close>
  reads it), the empty table of known covariates over the forecast horizon, and \<^verbatim>\<open>str\<close> on
  a float; and the method \<^verbatim>\<open>preprocess\<close>, which a subclass may override.
\<close>

record ('d, 'c) collaborators =
  get_target_scaler :: "pyval \<Rightarrow> string \<Rightarrow> ('d, 'c) target_scaler option"
  get_covariate_scaler ::
    "pyval \<Rightarrow> covariate_metadata \<Rightarrow> bool \<Rightarrow> bool \<Rightarrow> bool \<Rightarrow> 'd covariate_scaler option"
  get_covariate_regressor ::
    "pyval \<Rightarrow> string \<Rightarrow> covariate_metadata \<Rightarrow> ('d, 'c) covariate_regressor option"
  preprocess :: "'d \<Rightarrow> 'd option \<Rightarrow> bool \<Rightarrow> 'd \<times> 'd option"
  get_cpu_count :: int
  get_gpu_count :: int
  elapsed :: rat
  empty_known_covariates :: "'d \<Rightarrow> 'd"
  str_float :: "rat \<Rightarrow> string"

text \<open>\<^verbatim>\<open>AbstractTimeSeriesModel.__init__\<close>: the constructor of the base class, nothing assigned after it.\<close>

definition abstract_init ::
  "model_class \<Rightarrow> 'e init_env \<Rightarrow> string option \<Rightarrow> string option \<Rightarrow> pyval option \<Rightarrow>
   string option \<Rightarrow> int \<Rightarrow> covariate_metadata option \<Rightarrow> string \<Rightarrow> rat list \<Rightarrow> 'e \<Rightarrow>
   log_event list \<times> (error + ('d, 'c) abstract_model)" where
  "abstract_init cls env path_arg name_arg hp freq_arg pl cm tgt qs em =
     (case init cls env path_arg name_arg hp freq_arg pl cm tgt qs em of
        (logs, Inl e) \<Rightarrow> (logs, Inl e)
      | (logs, Inr m) \<Rightarrow> (logs, Inr (model_base.extend m \<lparr>transforms = None\<rparr>)))"

definition initialize_transforms_and_regressor ::
  "model_class \<Rightarrow> ('d, 'c) collaborators \<Rightarrow> ('d, 'c, 'z) abstract_model_scheme \<Rightarrow>
   ('d, 'c) transforms" where
  "initialize_transforms_and_regressor cls env self =
     \<lparr>target_scaler =
        get_target_scaler env
          (dict_get (KStr ''target_scaler'') PyNone (get_hyperparameters cls self)) (target self),
      covariate_scaler =
        get_covariate_scaler env
          (dict_get (KStr ''covariate_scaler'') PyNone (get_hyperparameters cls self))
          (covariate_metadata self)
          (supports_static_features cls self)
          (supports_known_covariates cls self)
          (supports_past_covariates cls self),
      covariate_regressor =
        get_covariate_regressor env
          (dict_get (KStr ''covariate_regressor'') PyNone (get_hyperparameters cls self))
          (target self) (covariate_metadata self)\<rparr>"

definition get_system_resources :: "('d, 'c) collaborators \<Rightarrow> (string \<times> pyval) list" where
  "get_system_resources env =
     [(''num_cpus'', PyNum (of_int (get_cpu_count env))),
      (''num_gpus'', PyNum (of_int (get_gpu_count env)))]"

text \<open>
  \<^verbatim>\<open>_preprocess_time_limit\<close>. Multiplying a float by, or comparing it with, a value that is
  not a number raises; the debug message it logs is left out.
\<close>

definition preprocess_time_limit ::
  "model_class \<Rightarrow> ('p, 'z) model_base_scheme \<Rightarrow> rat \<Rightarrow> error + rat" where
  "preprocess_time_limit cls self time_limit =
     (let max_time_limit_ratio =
            dict_get (KStr ''max_time_limit_ratio'') (PyNum (default_max_time_limit_ratio cls))
              (extra_ag_args self);
          max_time_limit = dict_get (KStr ''max_time_limit'') PyNone (extra_ag_args self)
      in case max_time_limit_ratio of
           PyNum ratio \<Rightarrow>
             (let time_limit1 = time_limit * ratio
              in case max_time_limit of
                   PyNone \<Rightarrow> Inr time_limit1
                 | PyNum cap \<Rightarrow> Inr (min time_limit1 cap)
                 | _ \<Rightarrow> Inl TypeError)
         | _ \<Rightarrow> Inl TypeError)"

text \<open>The arguments with which \<^verbatim>\<open>fit\<close> calls the training hook \<^verbatim>\<open>_fit\<close>.\<close>

record 'd fit_call =
  fc_train_data :: 'd
  fc_val_data :: "'d option"
  fc_time_limit :: "rat option"
  fc_verbosity :: int
  fc_kwargs :: "(string \<times> pyval) list"

text \<open>Lines 476 to 495 of \<^verbatim>\<open>fit\<close>: the training data handed to the hook.\<close>

definition fit_train_data ::
  "model_class \<Rightarrow> ('d, 'c) collaborators \<Rightarrow> ('d, 'c) transforms \<Rightarrow> 'd \<Rightarrow> 'd" where
  "fit_train_data cls env t train_data =
     (let train1 = (case target_scaler t of None \<Rightarrow> train_data
                    | Some s \<Rightarrow> ts_fit_transform s train_data);
          train2 = (case covariate_scaler t of None \<Rightarrow> train1
                    | Some s \<Rightarrow> cs_fit_transform s train1)
      in if can_use_train_data cls
         then fst (preprocess env
                     (case covariate_regressor t of None \<Rightarrow> train2
                      | Some r \<Rightarrow> cr_transform r train2) None True)
         else train2)"

text \<open>Lines 497 to 504 of \<^verbatim>\<open>fit\<close>: the validation data handed to the hook.\<close>

definition fit_val_data ::
  "model_class \<Rightarrow> ('d, 'c) collaborators \<Rightarrow> ('d, 'c) transforms \<Rightarrow> 'd option \<Rightarrow> 'd option" where
  "fit_val_data cls env t val_data =
     (case val_data of
        None \<Rightarrow> None
      | Some v \<Rightarrow>
          if can_use_val_data cls
          then (let v1 = (case target_scaler t of None \<Rightarrow> v | Some s \<Rightarrow> ts_transform s v);
                    v2 = (case covariate_scaler t of None \<Rightarrow> v1 | Some s \<Rightarrow> cs_transform s v1);
                    v3 = (case covariate_regressor t of None \<Rightarrow> v2 | Some r \<Rightarrow> cr_transform r v2)
                in Some (fst (preprocess env v3 None False)))
          else Some v)"

text \<open>
  \<^verbatim>\<open>fit\<close>, with the training hook \<^verbatim>\<open>_fit\<close> of the subclass as an argument: the hook takes the
  arguments of the call and the instance, and returns the instance it trained or raises.
  The call \<^verbatim>\<open>covariate_regressor.fit\<close> (lines 482 to 490, with its fraction of the time limit)
  changes the regressor only and is left out, as is the warning logged before
  \<^verbatim>\<open>TimeLimitExceeded\<close> is raised.
\<close>

definition fit ::
  "model_class \<Rightarrow> ('d, 'c) collaborators \<Rightarrow>
   ('d fit_call \<Rightarrow> ('d, 'c, 'z) abstract_model_scheme \<Rightarrow> error + ('d, 'c, 'z) abstract_model_scheme) \<Rightarrow>
   ('d, 'c, 'z) abstract_model_scheme \<Rightarrow> 'd \<Rightarrow> 'd option \<Rightarrow> rat option \<Rightarrow> int \<Rightarrow>
   (string \<times> pyval) list \<Rightarrow> error + ('d, 'c, 'z) abstract_model_scheme" where
  "fit cls env hook self train_data val_data time_limit verbosity kwargs =
     (let t = initialize_transforms_and_regressor cls env self;
          self1 = self\<lparr>transforms := Some t\<rparr>;
          train_data1 = fit_train_data cls env t train_data;
          val_data1 = fit_val_data cls env t val_data
      in case (case time_limit of
                 None \<Rightarrow> Inr None
               | Some limit \<Rightarrow>
                   (case preprocess_time_limit cls self1 (limit - elapsed env) of
                      Inl e \<Rightarrow> Inl e
                    | Inr limit1 \<Rightarrow>
                        if limit1 \<le> 0 then Inl TimeLimitExceeded else Inr (Some limit1))) of
           Inl e \<Rightarrow> Inl e
         | Inr time_limit1 \<Rightarrow>
             hook \<lparr>fc_train_data = train_data1,
                   fc_val_data = val_data1,
                   fc_time_limit = time_limit1,
                   fc_verbosity = verbosity,
                   fc_kwargs = dict_union (get_system_resources env) kwargs\<rparr>
                  self1)"

text \<open>\<^verbatim>\<open>_check_fit_params\<close>.\<close>

definition check_fit_params ::
  "model_class \<Rightarrow> ('p, 'z) model_base_scheme \<Rightarrow> error + unit" where
  "check_fit_params cls self =
     (if list_ex (\<lambda>v. case v of PySpace _ \<Rightarrow> True | _ \<Rightarrow> False) (map snd (get_hyperparameters cls self))
      then Inl ValueError else Inr ())"

text \<open>
  \<^verbatim>\<open>predict\<close> in three steps and the call of the hook between them. Lines 594 to 602: the
  data and the known covariates handed to the prediction hook.
\<close>

definition predict_inputs ::
  "('d, 'c) collaborators \<Rightarrow> ('d, 'c) transforms \<Rightarrow> 'd \<Rightarrow> 'd option \<Rightarrow> 'd \<times> 'd option" where
  "predict_inputs env t data known =
     (let data1 = (case target_scaler t of None \<Rightarrow> data | Some s \<Rightarrow> ts_fit_transform s data);
          data2 = (case covariate_scaler t of None \<Rightarrow> data1 | Some s \<Rightarrow> cs_fit_transform s data1);
          known1 = (case covariate_scaler t of None \<Rightarrow> known
                    | Some s \<Rightarrow> cs_transform_known_covariates s known);
          data3 = (case covariate_regressor t of None \<Rightarrow> data2 | Some r \<Rightarrow> cr_fit_transform r data2)
      in preprocess env data3 known1 False)"

text \<open>
  Lines 611 to 620: the columns of the raw predictions are brought to \<open>column_order\<close>; when
  there is a column \<^verbatim>\<open>0.5\<close>, it is copied to \<^verbatim>\<open>mean\<close> for a metric optimized by the median
  and dropped when the median must be dropped.
\<close>

definition reconcile_columns ::
  "string list \<Rightarrow> bool \<Rightarrow> bool \<Rightarrow> 'c table \<Rightarrow> error + 'c table" where
  "reconcile_columns column_order by_median drop_median predictions =
     (case (if columns predictions \<noteq> column_order
            then reindex column_order predictions else Inr predictions) of
        Inl e \<Rightarrow> Inl e
      | Inr predictions1 \<Rightarrow>
          if ''0.5'' \<in> set (columns predictions1)
          then (case (if by_median then assign_column ''mean'' ''0.5'' predictions1
                      else Inr predictions1) of
                  Inl e \<Rightarrow> Inl e
                | Inr predictions2 \<Rightarrow>
                    Inr (if drop_median then drop_column ''0.5'' predictions2 else predictions2))
          else Inr predictions1)"

text \<open>Lines 622 to 635: the inverse transforms of the covariate regressor and of the target scaler.\<close>

definition inverse_transforms ::
  "('d, 'c) collaborators \<Rightarrow> ('d, 'c) transforms \<Rightarrow> 'c table \<Rightarrow> 'd option \<Rightarrow> 'd \<Rightarrow> 'c table" where
  "inverse_transforms env t predictions known data =
     (let predictions1 =
            (case covariate_regressor t of
               None \<Rightarrow> predictions
             | Some r \<Rightarrow>
                 cr_inverse_transform r predictions
                   (case known of None \<Rightarrow> empty_known_covariates env data | Some k \<Rightarrow> k) data)
      in case target_scaler t of
           None \<Rightarrow> predictions1
         | Some s \<Rightarrow> ts_inverse_transform s predictions1)"

text \<open>
  \<^verbatim>\<open>predict\<close>, with the prediction hook \<^verbatim>\<open>_predict\<close> of the subclass as an argument; the hook
  sees the instance with the covariate regressor detached, which is attached again after the
  call. The result is the table and the instance after the call.
\<close>

definition predict ::
  "('d, 'c) collaborators \<Rightarrow>
   (('d, 'c, 'z) abstract_model_scheme \<Rightarrow> 'd \<Rightarrow> 'd option \<Rightarrow> (string \<times> pyval) list \<Rightarrow> error + 'c table) \<Rightarrow>
   ('d, 'c, 'z) abstract_model_scheme \<Rightarrow> 'd \<Rightarrow> 'd option \<Rightarrow> (string \<times> pyval) list \<Rightarrow>
   error + 'c table \<times> ('d, 'c, 'z) abstract_model_scheme" where
  "predict env hook self data known kwargs =
     (case transforms self of
        None \<Rightarrow> Inl AttributeError
      | Some t \<Rightarrow>
          (let inputs = predict_inputs env t data known;
               self1 = self\<lparr>transforms := Some (t\<lparr>covariate_regressor := None\<rparr>)\<rparr>
           in case hook self1 (fst inputs) (snd inputs) kwargs of
                Inl e \<Rightarrow> Inl e
              | Inr predictions \<Rightarrow>
                  (let self2 = self1\<lparr>transforms := Some t\<rparr>
                   in case reconcile_columns
                             (''mean'' # map (str_float env) (quantile_levels self2))
                             (optimized_by_median (eval_metric self2))
                             (must_drop_median self2) predictions of
                        Inl e \<Rightarrow> Inl e
                      | Inr predictions1 \<Rightarrow>
                          Inr (inverse_transforms env t predictions1 (snd inputs) (fst inputs),
                               self2))))"

section \<open>Example inputs\<close>

text \<open>Concrete collaborators, arguments and instances at which the theorems are evaluated.\<close>

definition example_init_env :: "unit init_env" where
  "example_init_env =
     \<lparr>setup_outputdir = (\<lambda>suffix. ''AutogluonModels/ag-0001/'' @ suffix),
      check_get_evaluation_metric = (\<lambda>_ _. Inr \<lparr>metric_name = ''WQL'', optimized_by_median = False\<rparr>)\<rparr>"

definition example_model :: "unit model_base" where
  "example_model = 
     \<lparr>name = ''Naive'', path_root = ''out'', path = ''out/Naive'',
      eval_metric = \<lparr>metric_name = ''WQL'', optimized_by_median = False\<rparr>,
      target = ''target'', covariate_metadata = CovariateMetadata, freq = None,
      prediction_length = 1, quantile_levels = [1 / 10, 1 / 2, 9 / 10], must_drop_median = True,
      oof_predictions = None, hyperparameters = [], extra_ag_args = [],
      fit_time = None, predict_time = None, predict_1_time = None, val_score = None\<rparr>"

definition example_hyperparameters :: pydict where
  "example_hyperparameters =
     [(KStr ''seasonal_period'', PyNum 7), (KInt 3, PyStr ''x''),
      (KStr ''ag_args_fit'', PyDict [(KStr ''max_time_limit'', PyNum 50)])]"

definition example_tuned_model :: "unit model_base" where
  "example_tuned_model = 
     \<lparr>name = ''Naive'', path_root = ''out'', path = ''out/Naive'',
      eval_metric = \<lparr>metric_name = ''WQL'', optimized_by_median = False\<rparr>,
      target = ''target'', covariate_metadata = CovariateMetadata, freq = None,
      prediction_length = 1, quantile_levels = [1 / 10, 1 / 2, 9 / 10], must_drop_median = False,
      oof_predictions = None,
      hyperparameters = [(KStr ''seasonal_period'', PyNum 7), (KInt 3, PyStr ''x'')],
      extra_ag_args = [(KStr ''max_time_limit'', PyNum 50)],
      fit_time = None, predict_time = None, predict_1_time = None, val_score = None\<rparr>"

definition example_fitted_model :: "(rat list) model_base" where
  "example_fitted_model =
     \<lparr>name = ''Naive'', path_root = ''out'', path = ''out/Naive'',
      eval_metric = \<lparr>metric_name = ''WQL'', optimized_by_median = False\<rparr>,
      target = ''target'', covariate_metadata = CovariateMetadata, freq = Some ''D'',
      prediction_length = 2, quantile_levels = [1 / 10, 1 / 2, 9 / 10], must_drop_median = False,
      oof_predictions = Some [[1, 2]], hyperparameters = [], extra_ag_args = [],
      fit_time = Some 3, predict_time = Some (1 / 4), predict_1_time = None, val_score = Some (- 1 / 5)\<rparr>"

definition nested_name_model :: "unit model_base" where
  "nested_name_model =
     \<lparr>name = ''DeepAR/T1'', path_root = ''out'', path = ''out/DeepAR/T1'',
      eval_metric = \<lparr>metric_name = ''WQL'', optimized_by_median = False\<rparr>,
      target = ''target'', covariate_metadata = CovariateMetadata, freq = None,
      prediction_length = 1, quantile_levels = [1 / 10, 1 / 2, 9 / 10], must_drop_median = False,
      oof_predictions = None, hyperparameters = [], extra_ag_args = [],
      fit_time = None, predict_time = None, predict_1_time = None, val_score = None\<rparr>"

definition example_regressor_model :: "unit model_base" where
  "example_regressor_model =
     \<lparr>name = ''Naive'', path_root = ''out'', path = ''out/Naive'',
      eval_metric = \<lparr>metric_name = ''WQL'', optimized_by_median = False\<rparr>,
      target = ''target'', covariate_metadata = CovariateMetadata, freq = None,
      prediction_length = 1, quantile_levels = [1 / 10, 1 / 2, 9 / 10], must_drop_median = False,
      oof_predictions = None,
      hyperparameters = [(KStr ''covariate_regressor'', PyStr ''LR'')], extra_ag_args = [],
      fit_time = None, predict_time = None, predict_1_time = None, val_score = None\<rparr>"

text \<open>
  Collaborators for the examples: a target scaler that halves the target for every scaler
  name, no covariate scaler and no regressor, eight CPUs and no GPU, and \<^verbatim>\<open>str\<close> on the
  one-digit decimals the examples use.
\<close>

definition example_collaborators :: "(rat list, rat list) collaborators" where
  "example_collaborators =
     \<lparr>get_target_scaler =
        (\<lambda>v tgt. case v of
            PyNone \<Rightarrow> None
          | _ \<Rightarrow> Some \<lparr>ts_fit_transform = map (\<lambda>x. x / 2),
                       ts_transform = map (\<lambda>x. x / 2),
                       ts_inverse_transform = map (\<lambda>(k, col). (k, map_option (map (\<lambda>x. x * 2)) col))\<rparr>),
      get_covariate_scaler = (\<lambda>v cm st kn pa. None),
      get_covariate_regressor = (\<lambda>v tgt cm. None),
      preprocess = (\<lambda>d k is_train. (d, k)),
      get_cpu_count = 8,
      get_gpu_count = 0,
      elapsed = 0,
      empty_known_covariates = (\<lambda>d. []),
      str_float = (\<lambda>q. ''0.'' @ [''0123456789'' ! nat \<lfloor>q * 10\<rfloor>])\<rparr>"

definition example_abstract_model :: "(rat list, rat list) abstract_model" where
  "example_abstract_model =
     \<lparr>name = ''Naive'', path_root = ''out'', path = ''out/Naive'',
      eval_metric = \<lparr>metric_name = ''WQL'', optimized_by_median = False\<rparr>,
      target = ''target'', covariate_metadata = CovariateMetadata, freq = Some ''D'',
      prediction_length = 1, quantile_levels = [1 / 10, 1 / 2, 9 / 10], must_drop_median = False,
      oof_predictions = None, hyperparameters = [], extra_ag_args = [],
      fit_time = None, predict_time = None, predict_1_time = None, val_score = None,
      transforms = None\<rparr>"

definition example_capped_model :: "(rat list, rat list) abstract_model" where
  "example_capped_model = example_abstract_model\<lparr>extra_ag_args := [(KStr ''max_time_limit'', PyNum 50)]\<rparr>"

definition example_space_model :: "(rat list, rat list) abstract_model" where
  "example_space_model = example_abstract_model\<lparr>hyperparameters := [(KStr ''context_length'', PySpace 0)]\<rparr>"

definition example_fit_hook ::
  "(rat list) fit_call \<Rightarrow> (rat list, rat list) abstract_model \<Rightarrow> error + (rat list, rat list) abstract_model" where
  "example_fit_hook call self = Inr (self\<lparr>fit_time := Some 1\<rparr>)"

text \<open>
  A fitted forecaster whose median is synthetic, one whose levels the user gave in descending
  order, and a prediction hook that emits its columns out of order, without the level 0.9 and
  with a column of its own.
\<close>

definition example_target_scaler :: "(rat list, rat list) target_scaler" where
  "example_target_scaler =
     \<lparr>ts_fit_transform = map (\<lambda>x. x / 2),
      ts_transform = map (\<lambda>x. x / 2),
      ts_inverse_transform = map (\<lambda>(k, col). (k, map_option (map (\<lambda>x. x * 2)) col))\<rparr>"

definition example_forecaster :: "(rat list, rat list) abstract_model" where
  "example_forecaster =
     \<lparr>name = ''Naive'', path_root = ''out'', path = ''out/Naive'',
      eval_metric = \<lparr>metric_name = ''WQL'', optimized_by_median = False\<rparr>,
      target = ''target'', covariate_metadata = CovariateMetadata, freq = Some ''D'',
      prediction_length = 1, quantile_levels = [1 / 10, 1 / 2, 9 / 10], must_drop_median = True,
      oof_predictions = None, hyperparameters = [(KStr ''target_scaler'', PyStr ''mean_abs'')],
      extra_ag_args = [],
      fit_time = None, predict_time = None, predict_1_time = None, val_score = None,
      transforms = Some \<lparr>target_scaler = Some example_target_scaler,
                         covariate_scaler = None, covariate_regressor = None\<rparr>\<rparr>"

definition example_unsorted_forecaster :: "(rat list, rat list) abstract_model" where
  "example_unsorted_forecaster =
     \<lparr>name = ''Naive'', path_root = ''out'', path = ''out/Naive'',
      eval_metric = \<lparr>metric_name = ''WQL'', optimized_by_median = False\<rparr>,
      target = ''target'', covariate_metadata = CovariateMetadata, freq = Some ''D'',
      prediction_length = 1, quantile_levels = [9 / 10, 1 / 2, 1 / 10], must_drop_median = False,
      oof_predictions = None, hyperparameters = [], extra_ag_args = [],
      fit_time = None, predict_time = None, predict_1_time = None, val_score = None,
      transforms = Some \<lparr>target_scaler = None, covariate_scaler = None, covariate_regressor = None\<rparr>\<rparr>"

definition example_predict_hook ::
  "(rat list, rat list) abstract_model \<Rightarrow> rat list \<Rightarrow> rat list option \<Rightarrow> (string \<times> pyval) list \<Rightarrow>
   error + (rat list) table" where
  "example_predict_hook self data known kwargs =
     Inr [(''0.1'', Some [1]), (''mean'', Some [2]), (''0.5'', Some [3]), (''extra'', Some [9])]"

section \<open>Properties of construction\<close>

lemma init_Inr_iff:
  "snd (init cls env p n hp f pl cm tgt qs em) = Inr (m :: 'p model_base) \<Longrightarrow>
   \<exists>lv dm. init_quantile_levels qs = Inr (lv, dm) \<and> quantile_levels m = lv \<and> must_drop_median m = dm"
  by (auto simp: init_def Let_def split: option.splits sum.splits prod.splits if_splits)

lemma init_invalid:
  "init_quantile_levels qs = Inl e \<Longrightarrow> \<exists>e'. snd (init cls env p n hp f pl cm tgt qs em) = Inl e'"
  by (auto simp: init_def Let_def split: option.splits sum.splits prod.splits if_splits)

lemma iql_invalid: "\<not> (\<forall>q\<in>set qs. 0 < q \<and> q < 1) \<Longrightarrow> init_quantile_levels qs = Inl ValueError"
  by (auto simp: init_quantile_levels_def list_all_iff)

lemma iql_absent:
  assumes "list_all (\<lambda>q. 0 < q \<and> q < 1) qs" and "1 / 2 \<notin> set qs"
  shows "init_quantile_levels qs = Inr (sort (remdups ((1 / 2) # qs)), True)"
  using assms by (simp add: init_quantile_levels_def)

lemma iql_present:
  assumes "list_all (\<lambda>q. 0 < q \<and> q < 1) qs" and "1 / 2 \<in> set qs"
  shows "init_quantile_levels qs = Inr (qs, False)"
  using assms by (simp add: init_quantile_levels_def)

lemma sort_remdups_median:
  fixes qs :: "rat list"
  shows "sort (remdups ((1 / 2) # qs)) = sorted_list_of_set ({1 / 2} \<union> set qs)"
proof -
  have "{1 / 2} \<union> set qs = set ((1 / 2) # qs)"
    by simp
  then show ?thesis
    by (simp only: sorted_list_of_set_sort_remdups)
qed

lemma iql_valid:
  assumes "init_quantile_levels qs = Inr (lv, dm)"
  shows "(\<forall>q\<in>set lv. 0 < q \<and> q < 1) \<and> 1 / 2 \<in> set lv \<and> (dm \<longleftrightarrow> 1 / 2 \<notin> set qs) \<and>
     (1 / 2 \<notin> set qs \<longrightarrow> lv = sorted_list_of_set ({1 / 2} \<union> set qs) \<and> sorted lv \<and> distinct lv) \<and>
     (1 / 2 \<in> set qs \<longrightarrow> lv = qs)"
proof -
  from assms have valid: "list_all (\<lambda>q. 0 < q \<and> q < 1) qs"
    by (simp add: init_quantile_levels_def split: if_splits)
  then have range: "\<forall>q\<in>set qs. 0 < q \<and> q < 1"
    by (simp add: list_all_iff)
  show ?thesis
  proof (cases "1 / 2 \<in> set qs")
    case True
    with valid assms have "lv = qs" "dm = False"
      by (simp_all add: iql_present)
    with True range show ?thesis by simp
  next
    case False
    with valid assms have lv: "lv = sort (remdups ((1 / 2) # qs))" and dm: "dm = True"
      by (simp_all add: iql_absent)
    have "set lv = insert (1 / 2) (set qs)"
      unfolding lv set_sort set_remdups by simp
    moreover have "sorted lv" "distinct lv"
      by (simp_all add: lv)
    moreover have "lv = sorted_list_of_set ({1 / 2} \<union> set qs)"
      unfolding lv by (rule sort_remdups_median)
    ultimately show ?thesis
      using False range dm by auto
  qed
qed

text \<open>
  C1 (as amended). The constructor fails when a level is not strictly between 0 and 1.
  When it succeeds, every stored level lies in the open interval (0,1), 0.5 is among the
  stored levels, and \<open>must_drop_median\<close> holds exactly when 0.5 was absent from the levels
  supplied; then the stored levels are the sorted, duplicate-free list of the supplied
  levels and 0.5. When 0.5 was supplied the stored levels are the supplied list as it is.
\<close>

theorem init_quantile_levels_invariant:
  fixes m :: "'p model_base"
  shows "(\<not> (\<forall>q\<in>set qs. 0 < q \<and> q < 1) \<longrightarrow>
            (\<exists>e. snd (init cls env p n hp f pl cm tgt qs em :: log_event list \<times> (error + 'p model_base)) = Inl e)) \<and>
         (snd (init cls env p n hp f pl cm tgt qs em) = Inr m \<longrightarrow>
            (\<forall>q\<in>set (quantile_levels m). 0 < q \<and> q < 1) \<and>
            1 / 2 \<in> set (quantile_levels m) \<and>
            (must_drop_median m \<longleftrightarrow> 1 / 2 \<notin> set qs) \<and>
            (1 / 2 \<notin> set qs \<longrightarrow>
               quantile_levels m = sorted_list_of_set ({1 / 2} \<union> set qs) \<and>
               sorted (quantile_levels m) \<and> distinct (quantile_levels m)) \<and>
            (1 / 2 \<in> set qs \<longrightarrow> quantile_levels m = qs))"
proof (rule conjI; rule impI)
  assume "\<not> (\<forall>q\<in>set qs. 0 < q \<and> q < 1)"
  then have "init_quantile_levels qs = Inl ValueError"
    by (rule iql_invalid)
  then show "\<exists>e. snd (init cls env p n hp f pl cm tgt qs em :: log_event list \<times> (error + 'p model_base)) = Inl e"
    by (rule init_invalid)
next
  assume ok: "snd (init cls env p n hp f pl cm tgt qs em) = Inr m"
  from init_Inr_iff [OF ok]
  have "init_quantile_levels qs = Inr (quantile_levels m, must_drop_median m)"
    by auto
  then show "(\<forall>q\<in>set (quantile_levels m). 0 < q \<and> q < 1) \<and>
            1 / 2 \<in> set (quantile_levels m) \<and>
            (must_drop_median m \<longleftrightarrow> 1 / 2 \<notin> set qs) \<and>
            (1 / 2 \<notin> set qs \<longrightarrow>
               quantile_levels m = sorted_list_of_set ({1 / 2} \<union> set qs) \<and>
               sorted (quantile_levels m) \<and> distinct (quantile_levels m)) \<and>
            (1 / 2 \<in> set qs \<longrightarrow> quantile_levels m = qs)"
    by (rule iql_valid)
qed

lemma init_example_model: "snd (init (TimeSeriesModelBase ''NaiveModel'') example_init_env (Some ''out'') None None None 1 None
             ''target'' [9 / 10, 1 / 10] ()) = Inr example_model"
  by (simp add: init_def Let_def TimeSeriesModelBase_def example_init_env_def example_model_def strip_Model_def
     init_quantile_levels_def check_and_split_hyperparameters_def dict_pop_def path_join_def CovariateMetadata_def)

text \<open>C1, witness: construction at the levels 0.9, 0.1, and at the invalid levels 0.1, 1.\<close>

theorem init_quantile_levels_invariant_witness:
  "snd (init (TimeSeriesModelBase ''NaiveModel'') example_init_env (Some ''out'') None None None 1 None
             ''target'' [9 / 10, 1 / 10] ()) = Inr example_model \<and>
   must_drop_median example_model \<and> quantile_levels example_model = [1 / 10, 1 / 2, 9 / 10] \<and>
   (\<exists>e. snd (init (TimeSeriesModelBase ''NaiveModel'') example_init_env (Some ''out'') None None None 1 None
             ''target'' [1 / 10, 1] () :: log_event list \<times> (error + unit model_base)) = Inl e)"
  using init_quantile_levels_invariant [of "[9 / 10, 1 / 10]" "TimeSeriesModelBase ''NaiveModel''" example_init_env
      "Some ''out''" None None None 1 None "''target''" "()" example_model]
    init_quantile_levels_invariant [of "[1 / 10, 1]" "TimeSeriesModelBase ''NaiveModel''" example_init_env
      "Some ''out''" None None None 1 None "''target''" "()", where ?'p = unit]
    init_example_model
  by (simp add: example_model_def)

text \<open>
  C1, counterexample: with the levels 0.9, 0.5, 0.1, 0.1 construction succeeds and the stored
  levels are neither sorted nor free of duplicates.
\<close>

theorem init_quantile_levels_sorted_counterexample:
  "\<not> (case snd (init (TimeSeriesModelBase ''NaiveModel'') example_init_env (Some ''out'') None None None 1 None
             ''target'' [9 / 10, 1 / 2, 1 / 10, 1 / 10] () :: log_event list \<times> (error + unit model_base)) of
        Inl e \<Rightarrow> True
      | Inr m \<Rightarrow> sorted (quantile_levels m) \<and> distinct (quantile_levels m))"
  by (simp add: init_def Let_def TimeSeriesModelBase_def example_init_env_def strip_Model_def
     init_quantile_levels_def check_and_split_hyperparameters_def dict_pop_def path_join_def CovariateMetadata_def)

lemma split_result:
  "snd (check_and_split_hyperparameters (Some (PyDict d))) =
     (case map_of d (KStr AG_ARGS_FIT) of
        None \<Rightarrow> Inr (AList.delete (KStr AG_ARGS_FIT) d, [])
      | Some (PyDict e) \<Rightarrow> Inr (AList.delete (KStr AG_ARGS_FIT) d, e)
      | Some _ \<Rightarrow> Inl ValueError)"
  by (simp add: check_and_split_hyperparameters_def dict_pop_def Let_def split: option.splits pyval.splits)

lemma split_log:
  "fst (check_and_split_hyperparameters (Some (PyDict d))) =
     map NonStrKeyWarning (filter (\<lambda>k. \<forall>s. k \<noteq> KStr s) (map fst d))"
proof -
  have "(\<lambda>k. case k of KStr _ \<Rightarrow> False | _ \<Rightarrow> True) = (\<lambda>k. \<forall>s. k \<noteq> KStr s)"
    by (auto split: pykey.splits)
  then show ?thesis
    by (simp add: check_and_split_hyperparameters_def dict_pop_def Let_def split: option.splits pyval.splits)
qed

lemma init_split:
  "snd (init cls env p n hp f pl cm tgt qs em) = Inr (m :: 'p model_base) \<Longrightarrow>
   snd (check_and_split_hyperparameters hp) = Inr (hyperparameters m, extra_ag_args m)"
  by (auto simp: init_def Let_def split: option.splits sum.splits prod.splits if_splits)

lemma init_split_fails:
  "snd (check_and_split_hyperparameters hp) = Inl e \<Longrightarrow>
   \<exists>e'. snd (init cls env p n hp f pl cm tgt qs em :: log_event list \<times> (error + 'p model_base)) = Inl e'"
  by (auto simp: init_def Let_def split: option.splits sum.splits prod.splits if_splits)

text \<open>
  C7. For a dictionary of hyperparameters given to the constructor: when the value under the
  reserved key is not a dictionary, construction fails; when construction succeeds, the
  reserved key is gone from the stored hyperparameters, every other key (string or not) keeps
  its value, and the auxiliary arguments are the value that was under the reserved key (empty
  when there was none). Each key that is not a string is logged as a warning, and the split
  raises only for an auxiliary value that is not a dictionary.
\<close>

theorem hyperparameter_split:
  fixes m :: "'p model_base"
  shows
  "((\<exists>v. map_of d (KStr AG_ARGS_FIT) = Some v \<and> (\<forall>e. v \<noteq> PyDict e)) \<longrightarrow>
      (\<exists>e. snd (init cls env p n (Some (PyDict d)) f pl cm tgt qs em
               :: log_event list \<times> (error + 'p model_base)) = Inl e)) \<and>
   (snd (init cls env p n (Some (PyDict d)) f pl cm tgt qs em) = Inr m \<longrightarrow>
      map_of (hyperparameters m) (KStr AG_ARGS_FIT) = None \<and>
      (\<forall>k. k \<noteq> KStr AG_ARGS_FIT \<longrightarrow> map_of (hyperparameters m) k = map_of d k) \<and>
      PyDict (extra_ag_args m) = dict_get (KStr AG_ARGS_FIT) (PyDict []) d) \<and>
   fst (check_and_split_hyperparameters (Some (PyDict d))) =
      map NonStrKeyWarning (filter (\<lambda>k. \<forall>s. k \<noteq> KStr s) (map fst d)) \<and>
   ((\<exists>e. snd (check_and_split_hyperparameters (Some (PyDict d))) = Inl e) \<longleftrightarrow>
      (\<exists>v. map_of d (KStr AG_ARGS_FIT) = Some v \<and> (\<forall>e. v \<noteq> PyDict e)))"
proof (intro conjI)
  show "(\<exists>v. map_of d (KStr AG_ARGS_FIT) = Some v \<and> (\<forall>e. v \<noteq> PyDict e)) \<longrightarrow>
      (\<exists>e. snd (init cls env p n (Some (PyDict d)) f pl cm tgt qs em
               :: log_event list \<times> (error + 'p model_base)) = Inl e)"
  proof
    assume "\<exists>v. map_of d (KStr AG_ARGS_FIT) = Some v \<and> (\<forall>e. v \<noteq> PyDict e)"
    then have "snd (check_and_split_hyperparameters (Some (PyDict d))) = Inl ValueError"
      by (auto simp: split_result split: pyval.splits)
    then show "\<exists>e. snd (init cls env p n (Some (PyDict d)) f pl cm tgt qs em
               :: log_event list \<times> (error + 'p model_base)) = Inl e"
      by (rule init_split_fails)
  qed
next
  show "snd (init cls env p n (Some (PyDict d)) f pl cm tgt qs em) = Inr m \<longrightarrow>
      map_of (hyperparameters m) (KStr AG_ARGS_FIT) = None \<and>
      (\<forall>k. k \<noteq> KStr AG_ARGS_FIT \<longrightarrow> map_of (hyperparameters m) k = map_of d k) \<and>
      PyDict (extra_ag_args m) = dict_get (KStr AG_ARGS_FIT) (PyDict []) d"
  proof
    assume "snd (init cls env p n (Some (PyDict d)) f pl cm tgt qs em) = Inr m"
    then have "snd (check_and_split_hyperparameters (Some (PyDict d))) =
                 Inr (hyperparameters m, extra_ag_args m)"
      by (rule init_split)
    then have h: "hyperparameters m = AList.delete (KStr AG_ARGS_FIT) d"
      and e: "PyDict (extra_ag_args m) = dict_get (KStr AG_ARGS_FIT) (PyDict []) d"
      by (auto simp: split_result dict_get_def split: option.splits pyval.splits)
    show "map_of (hyperparameters m) (KStr AG_ARGS_FIT) = None \<and>
      (\<forall>k. k \<noteq> KStr AG_ARGS_FIT \<longrightarrow> map_of (hyperparameters m) k = map_of d k) \<and>
      PyDict (extra_ag_args m) = dict_get (KStr AG_ARGS_FIT) (PyDict []) d"
      using e by (simp add: h delete_conv)
  qed
next
  show "fst (check_and_split_hyperparameters (Some (PyDict d))) =
      map NonStrKeyWarning (filter (\<lambda>k. \<forall>s. k \<noteq> KStr s) (map fst d))"
    by (rule split_log)
next
  show "(\<exists>e. snd (check_and_split_hyperparameters (Some (PyDict d))) = Inl e) \<longleftrightarrow>
      (\<exists>v. map_of d (KStr AG_ARGS_FIT) = Some v \<and> (\<forall>e. v \<noteq> PyDict e))"
    by (auto simp: split_result split: option.splits pyval.splits)
qed

lemma init_example_tuned_model: "init (TimeSeriesModelBase ''NaiveModel'') example_init_env (Some ''out'') None
             (Some (PyDict example_hyperparameters)) None 1 None
             ''target'' [1 / 10, 1 / 2, 9 / 10] () = ([NonStrKeyWarning (KInt 3)], Inr example_tuned_model)"
  by (simp add: init_def Let_def TimeSeriesModelBase_def example_init_env_def example_tuned_model_def strip_Model_def
     example_hyperparameters_def AG_ARGS_FIT_def
     init_quantile_levels_def check_and_split_hyperparameters_def dict_pop_def path_join_def CovariateMetadata_def)

text \<open>
  C7, witness: a dictionary with a key that is not a string and auxiliary arguments, and a
  dictionary whose auxiliary value is a number.
\<close>

theorem hyperparameter_split_witness:
  "snd (init (TimeSeriesModelBase ''NaiveModel'') example_init_env (Some ''out'') None
             (Some (PyDict example_hyperparameters)) None 1 None
             ''target'' [1 / 10, 1 / 2, 9 / 10] ()) = Inr example_tuned_model \<and>
   map_of (hyperparameters example_tuned_model) (KInt 3) = Some (PyStr ''x'') \<and>
   map_of (hyperparameters example_tuned_model) (KStr AG_ARGS_FIT) = None \<and>
   extra_ag_args example_tuned_model = [(KStr ''max_time_limit'', PyNum 50)] \<and>
   (\<exists>e. snd (init (TimeSeriesModelBase ''NaiveModel'') example_init_env (Some ''out'') None
             (Some (PyDict [(KStr ''ag_args_fit'', PyNum 3)])) None 1 None
             ''target'' [1 / 10, 1 / 2, 9 / 10] () :: log_event list \<times> (error + unit model_base)) = Inl e)"
  using hyperparameter_split [of example_hyperparameters "TimeSeriesModelBase ''NaiveModel''" example_init_env
      "Some ''out''" None None 1 None "''target''" "[1 / 10, 1 / 2, 9 / 10]" "()" example_tuned_model]
    hyperparameter_split [of "[(KStr ''ag_args_fit'', PyNum 3)]" "TimeSeriesModelBase ''NaiveModel''" example_init_env
      "Some ''out''" None None 1 None "''target''" "[1 / 10, 1 / 2, 9 / 10]" "()", where ?'p = unit]
    init_example_tuned_model
  by (simp add: example_tuned_model_def example_hyperparameters_def AG_ARGS_FIT_def dict_get_def)

section \<open>Properties of dictionaries and capabilities\<close>

lemma map_of_dict_union:
  "map_of (dict_union a b) = map_of a ++ map_of (rev b)"
  unfolding dict_union_def
proof (induction b arbitrary: a)
  case Nil
  show ?case by simp
next
  case (Cons x b)
  obtain k v where x: "x = (k, v)" by (cases x)
  have "map_of (fold (\<lambda>(k, v). AList.update k v) b (AList.update k v a)) =
          map_of (AList.update k v a) ++ map_of (rev b)"
    by (rule Cons.IH)
  then show ?case
    by (simp add: x update_conv' map_add_upd_left fun_eq_iff map_add_def split: option.splits)
qed

lemma map_of_rev_distinct:
  assumes "distinct (map fst b)"
  shows "map_of (rev b) = map_of b"
proof -
  have "distinct (map fst (rev b))"
    using assms by (simp add: rev_map[symmetric])
  moreover have "set (rev b) = set b" by simp
  ultimately show ?thesis
    using assms map_of_inject_set by blast
qed

lemma dict_union_lookup:
  assumes "distinct (map fst b)"
  shows "map_of (dict_union a b) k = (case map_of b k of None \<Rightarrow> map_of a k | Some v \<Rightarrow> Some v)"
  by (simp add: map_of_dict_union map_of_rev_distinct [OF assms] map_add_def)

text \<open>
  C10. For a model whose hyperparameters (a dictionary: each key once) bind
  \<^verbatim>\<open>covariate_regressor\<close> to a value other than \<^verbatim>\<open>None\<close>, \<^verbatim>\<open>supports_known_covariates\<close> and
  \<^verbatim>\<open>supports_static_features\<close> are true whatever the flags of the class are, and
  \<^verbatim>\<open>supports_past_covariates\<close> is the flag of the class.
\<close>

theorem covariate_regressor_capabilities:
  assumes "distinct (map fst (hyperparameters self))"
    and "map_of (hyperparameters self) (KStr ''covariate_regressor'') = Some v"
    and "v \<noteq> PyNone"
  shows "supports_known_covariates cls self \<and> supports_static_features cls self \<and>
         (supports_past_covariates cls self \<longleftrightarrow> cls_supports_past_covariates cls)"
proof -
  have "map_of (get_hyperparameters cls self) (KStr ''covariate_regressor'') = Some v"
    using assms(1,2) by (simp add: get_hyperparameters_def dict_union_lookup)
  then have "dict_get (KStr ''covariate_regressor'') PyNone (get_hyperparameters cls self) = v"
    by (simp add: dict_get_def)
  with assms(3) show ?thesis
    by (simp add: supports_known_covariates_def supports_static_features_def supports_past_covariates_def)
qed

text \<open>
  C10, witness: the base class, whose three flags are false, with a covariate regressor
  configured.
\<close>

theorem covariate_regressor_capabilities_witness:
  "distinct (map fst (hyperparameters example_regressor_model)) \<and>
   map_of (hyperparameters example_regressor_model) (KStr ''covariate_regressor'') = Some (PyStr ''LR'') \<and>
   \<not> cls_supports_known_covariates (TimeSeriesModelBase ''NaiveModel'') \<and>
   \<not> cls_supports_static_features (TimeSeriesModelBase ''NaiveModel'') \<and>
   supports_known_covariates (TimeSeriesModelBase ''NaiveModel'') example_regressor_model \<and>
   supports_static_features (TimeSeriesModelBase ''NaiveModel'') example_regressor_model \<and>
   \<not> supports_past_covariates (TimeSeriesModelBase ''NaiveModel'') example_regressor_model"
proof -
  have h1: "distinct (map fst (hyperparameters example_regressor_model))"
    by (simp add: example_regressor_model_def)
  have h2: "map_of (hyperparameters example_regressor_model) (KStr ''covariate_regressor'') = Some (PyStr ''LR'')"
    by (simp add: example_regressor_model_def)
  have h3: "PyStr ''LR'' \<noteq> PyNone"
    by simp
  show ?thesis
    using covariate_regressor_capabilities [OF h1 h2 h3, of "TimeSeriesModelBase ''NaiveModel''"] h1 h2
    by (simp add: TimeSeriesModelBase_def)
qed

section \<open>Properties of persistence\<close>

lemma oof_path_neq_model_path: "oof_path p \<noteq> path_join p model_file_name"
  by (auto simp: oof_path_def path_join_def model_file_name_def oof_filename_def)

text \<open>
  C8. \<^verbatim>\<open>save\<close> returns the path it wrote to; the instance after the call equals the instance
  before it, out-of-fold predictions included; the model file holds the instance with the
  out-of-fold field cleared; out-of-fold predictions, when present, are in a file of their
  own, whose path differs from the path of the model file; no other path is written.
\<close>

theorem save_frame:
  "(let (rp, self', fs') = save self p fs in
      rp = (case p of None \<Rightarrow> path self | Some q \<Rightarrow> q) \<and>
      self' = self \<and>
      fs' (path_join rp model_file_name) = Some (ModelPickle (self\<lparr>oof_predictions := None\<rparr>)) \<and>
      (\<forall>oof. oof_predictions self = Some oof \<longrightarrow> fs' (oof_path rp) = Some (OofPickle oof)) \<and>
      (oof_predictions self = None \<longrightarrow> fs' (oof_path rp) = fs (oof_path rp)) \<and>
      oof_path rp \<noteq> path_join rp model_file_name \<and>
      (\<forall>q. q \<noteq> oof_path rp \<and> q \<noteq> path_join rp model_file_name \<longrightarrow> fs' q = fs q))"
  using oof_path_neq_model_path [of "case p of None \<Rightarrow> path self | Some q \<Rightarrow> q"]
  by (auto simp: save_def Let_def split: option.splits)

text \<open>C8, witness: a fitted model with cached out-of-fold predictions saved to its own path.\<close>

theorem save_frame_witness:
  "(let (rp, self', fs') = save example_fitted_model None Map.empty in
      rp = ''out/Naive'' \<and> self' = example_fitted_model \<and>
      fs' ''out/Naive/model.pkl'' = Some (ModelPickle (example_fitted_model\<lparr>oof_predictions := None\<rparr>)) \<and>
      fs' ''out/Naive/utils/oof.pkl'' = Some (OofPickle [[1, 2]]) \<and>
      fs' ''out/Naive/info.pkl'' = None)"
  using save_frame [of example_fitted_model None Map.empty]
  by (simp add: save_def Let_def example_fitted_model_def oof_path_def path_join_def
      model_file_name_def oof_filename_def)

lemma rename_name [simp]: "name (rename self nm) = nm"
  by (simp add: rename_def)

lemma rsplit1_head_nonempty: "sep \<noteq> [] \<Longrightarrow> \<exists>r. rsplit1_head sep s = Inr r"
  by (auto simp: rsplit1_head_def split: option.splits)

lemma suffix_nonempty: "nm @ REFIT_FULL_SUFFIX \<noteq> []"
  by (simp add: REFIT_FULL_SUFFIX_def)

lemma convert_to_refit_full_via_copy_result:
  "\<exists>p1 r fs'. convert_to_refit_full_via_copy self fs =
     Inr (self\<lparr>name := name self @ REFIT_FULL_SUFFIX, path := p1, path_root := r,
              oof_predictions := None, val_score := None, predict_time := None\<rparr>,
          self\<lparr>path := path_join (path_dirname p1) (name self)\<rparr>,
          fs')"
proof -
  define n where "n = name self @ REFIT_FULL_SUFFIX"
  define p1 where "p1 = (if name self \<noteq> [] then path_join (path_dirname (path self)) n
                         else path_join (path self) n)"
  have n: "n \<noteq> []"
    unfolding n_def by (rule suffix_nonempty)
  then obtain r where r: "rsplit1_head n p1 = Inr r"
    using rsplit1_head_nonempty by blast
  have s1: "rename self n = self\<lparr>path := p1, name := n\<rparr>"
    by (simp add: rename_def p1_def)
  have "convert_to_refit_full_via_copy self fs =
     Inr (self\<lparr>name := n, path := p1, path_root := r,
              oof_predictions := None, val_score := None, predict_time := None\<rparr>,
          self\<lparr>path := path_join (path_dirname p1) (name self)\<rparr>,
          snd (snd (save (self\<lparr>path := p1, name := n\<rparr>) (Some p1) fs)))"
    unfolding convert_to_refit_full_via_copy_def n_def [symmetric] s1
    using n r by (simp add: Let_def save_def load_def set_contexts_def rename_def split: prod.splits option.splits)
  then show ?thesis
    unfolding n_def by blast
qed

text \<open>
  C9 at a model constructed with the path \<^verbatim>\<open>out\<close> and the name \<^verbatim>\<open>DeepAR/T1\<close>: after
  \<^verbatim>\<open>convert_to_refit_full_via_copy\<close> the name of the original is restored and its path is
  \<^verbatim>\<open>out/DeepAR/DeepAR/DeepAR/T1\<close>, not the path \<^verbatim>\<open>out/DeepAR/T1\<close> it had.
\<close>

theorem convert_to_refit_full_via_copy_nested_name:
  "snd (init (TimeSeriesModelBase ''DeepARModel'') example_init_env (Some ''out'') (Some ''DeepAR/T1'')
          None None 1 None ''target'' [1 / 10, 1 / 2, 9 / 10] ()) = Inr nested_name_model \<and>
   path nested_name_model = ''out/DeepAR/T1'' \<and>
   (case convert_to_refit_full_via_copy nested_name_model Map.empty of
      Inl e \<Rightarrow> False
    | Inr (refit_model, self', fs') \<Rightarrow>
        name self' = ''DeepAR/T1'' \<and> path self' = ''out/DeepAR/DeepAR/DeepAR/T1'' \<and>
        path self' \<noteq> path nested_name_model)"
  by (simp add: init_def Let_def TimeSeriesModelBase_def example_init_env_def nested_name_model_def
      strip_Model_def init_quantile_levels_def check_and_split_hyperparameters_def dict_pop_def
      path_join_def CovariateMetadata_def convert_to_refit_full_via_copy_def rename_def save_def
      load_def set_contexts_def rsplit1_head_def path_dirname_def rstrip_slash_def
      REFIT_FULL_SUFFIX_def model_file_name_def)

section \<open>Properties of fit\<close>

lemma preprocess_time_limit_transforms [simp]:
  "preprocess_time_limit cls (self\<lparr>transforms := x\<rparr>) t = preprocess_time_limit cls self t"
  by (simp add: preprocess_time_limit_def)

lemma fit_no_limit:
  "fit cls env hook self train_data val_data None verbosity kwargs =
     hook \<lparr>fc_train_data = fit_train_data cls env (initialize_transforms_and_regressor cls env self) train_data,
           fc_val_data = fit_val_data cls env (initialize_transforms_and_regressor cls env self) val_data,
           fc_time_limit = None,
           fc_verbosity = verbosity,
           fc_kwargs = dict_union (get_system_resources env) kwargs\<rparr>
          (self\<lparr>transforms := Some (initialize_transforms_and_regressor cls env self)\<rparr>)"
  by (simp add: fit_def Let_def)

lemma fit_limit:
  assumes "preprocess_time_limit cls self (limit - elapsed env) = Inr b"
  shows "fit cls env hook self train_data val_data (Some limit) verbosity kwargs =
     (if b \<le> 0 then Inl TimeLimitExceeded
      else hook \<lparr>fc_train_data = fit_train_data cls env (initialize_transforms_and_regressor cls env self) train_data,
           fc_val_data = fit_val_data cls env (initialize_transforms_and_regressor cls env self) val_data,
           fc_time_limit = Some b,
           fc_verbosity = verbosity,
           fc_kwargs = dict_union (get_system_resources env) kwargs\<rparr>
          (self\<lparr>transforms := Some (initialize_transforms_and_regressor cls env self)\<rparr>))"
  using assms by (simp add: fit_def Let_def)

lemma fit_limit_error:
  assumes "preprocess_time_limit cls self (limit - elapsed env) = Inl e"
  shows "fit cls env hook self train_data val_data (Some limit) verbosity kwargs = Inl e"
  using assms by (simp add: fit_def Let_def)

lemma preprocess_time_limit_value:
  assumes "dict_get (KStr ''max_time_limit_ratio'') (PyNum (default_max_time_limit_ratio cls))
             (extra_ag_args self) = PyNum ratio"
  shows "dict_get (KStr ''max_time_limit'') PyNone (extra_ag_args self) = PyNone \<Longrightarrow>
           preprocess_time_limit cls self t = Inr (t * ratio)"
    and "dict_get (KStr ''max_time_limit'') PyNone (extra_ag_args self) = PyNum cap \<Longrightarrow>
           preprocess_time_limit cls self t = Inr (min (t * ratio) cap)"
  using assms by (simp_all add: preprocess_time_limit_def Let_def)

text \<open>
  C3. For a time limit handed to \<^verbatim>\<open>fit\<close>, with the auxiliary argument
  \<^verbatim>\<open>max_time_limit_ratio\<close> a number \<open>ratio\<close> (the default of the class when the argument is
  absent) and \<^verbatim>\<open>max_time_limit\<close> absent, \<^verbatim>\<open>None\<close> or a number \<open>cap\<close>: the budget is
  (time limit - elapsed time) * ratio, capped by \<open>cap\<close> when there is one, and when it is
  positive the training hook is called with it, whatever the hook is.
\<close>

theorem fit_time_budget:
  assumes ratio: "dict_get (KStr ''max_time_limit_ratio'') (PyNum (default_max_time_limit_ratio cls))
             (extra_ag_args self) = PyNum ratio"
    and cap: "dict_get (KStr ''max_time_limit'') PyNone (extra_ag_args self) = cap_value"
    and cap_value: "cap_value = PyNone \<or> cap_value = PyNum cap"
    and budget: "budget = (if cap_value = PyNone then (limit - elapsed env) * ratio
                           else min ((limit - elapsed env) * ratio) cap)"
    and positive: "0 < budget"
  shows "\<exists>call self1.
           (\<forall>hook. fit cls env hook self train_data val_data (Some limit) verbosity kwargs = hook call self1) \<and>
           fc_time_limit call = Some budget"
proof -
  have "preprocess_time_limit cls self (limit - elapsed env) = Inr budget"
    using cap_value
  proof
    assume "cap_value = PyNone"
    with cap budget show ?thesis
      by (simp add: preprocess_time_limit_value(1) [OF ratio])
  next
    assume "cap_value = PyNum cap"
    with cap budget show ?thesis
      by (simp add: preprocess_time_limit_value(2) [OF ratio])
  qed
  from fit_limit [OF this] positive
  have "\<forall>hook. fit cls env hook self train_data val_data (Some limit) verbosity kwargs =
      hook \<lparr>fc_train_data = fit_train_data cls env (initialize_transforms_and_regressor cls env self) train_data,
           fc_val_data = fit_val_data cls env (initialize_transforms_and_regressor cls env self) val_data,
           fc_time_limit = Some budget,
           fc_verbosity = verbosity,
           fc_kwargs = dict_union (get_system_resources env) kwargs\<rparr>
          (self\<lparr>transforms := Some (initialize_transforms_and_regressor cls env self)\<rparr>)"
    by simp
  then show ?thesis
    by (intro exI conjI) (assumption, simp)
qed

text \<open>
  C3, witness: the base class (ratio 0.9). Time limit 100 and no elapsed time give 90; the cap
  50 gives 50; 10 seconds elapsed give 81.
\<close>

theorem fit_time_budget_witness:
  "(\<exists>call self1.
      (\<forall>hook. fit (TimeSeriesModelBase ''NaiveModel'') example_collaborators hook example_abstract_model
                [1, 2, 3] None (Some 100) 2 [] = hook call self1) \<and>
      fc_time_limit call = Some 90) \<and>
   (\<exists>call self1.
      (\<forall>hook. fit (TimeSeriesModelBase ''NaiveModel'') example_collaborators hook example_capped_model
                [1, 2, 3] None (Some 100) 2 [] = hook call self1) \<and>
      fc_time_limit call = Some 50) \<and>
   (\<exists>call self1.
      (\<forall>hook. fit (TimeSeriesModelBase ''NaiveModel'') (example_collaborators\<lparr>elapsed := 10\<rparr>) hook
                example_abstract_model [1, 2, 3] None (Some 100) 2 [] = hook call self1) \<and>
      fc_time_limit call = Some 81)"
proof (intro conjI)
  show "\<exists>call self1.
      (\<forall>hook. fit (TimeSeriesModelBase ''NaiveModel'') example_collaborators hook example_abstract_model
                [1, 2, 3] None (Some 100) 2 [] = hook call self1) \<and>
      fc_time_limit call = Some 90"
    by (rule fit_time_budget [where ratio = "9 / 10" and cap_value = PyNone and cap = 0])
       (simp_all add: TimeSeriesModelBase_def example_collaborators_def example_abstract_model_def dict_get_def)
  show "\<exists>call self1.
      (\<forall>hook. fit (TimeSeriesModelBase ''NaiveModel'') example_collaborators hook example_capped_model
                [1, 2, 3] None (Some 100) 2 [] = hook call self1) \<and>
      fc_time_limit call = Some 50"
    by (rule fit_time_budget [where ratio = "9 / 10" and cap_value = "PyNum 50" and cap = 50])
       (simp_all add: TimeSeriesModelBase_def example_collaborators_def example_abstract_model_def
          example_capped_model_def dict_get_def)
  show "\<exists>call self1.
      (\<forall>hook. fit (TimeSeriesModelBase ''NaiveModel'') (example_collaborators\<lparr>elapsed := 10\<rparr>) hook
                example_abstract_model [1, 2, 3] None (Some 100) 2 [] = hook call self1) \<and>
      fc_time_limit call = Some 81"
    by (rule fit_time_budget [where ratio = "9 / 10" and cap_value = PyNone and cap = 0])
       (simp_all add: TimeSeriesModelBase_def example_collaborators_def example_abstract_model_def dict_get_def)
qed

text \<open>
  C4. When the adjusted budget of a call with a time limit is at most 0, \<^verbatim>\<open>fit\<close> raises
  \<^verbatim>\<open>TimeLimitExceeded\<close>, an error of its own; the result does not depend on the training
  hook, which is not called.
\<close>

theorem fit_time_limit_exceeded:
  assumes "preprocess_time_limit cls self (limit - elapsed env) = Inr budget"
    and "budget \<le> 0"
  shows "fit cls env hook self train_data val_data (Some limit) verbosity kwargs = Inl TimeLimitExceeded"
  using fit_limit [OF assms(1)] assms(2) by simp

text \<open>C4, witness: a time limit of 5 with 10 seconds elapsed, the budget is -4.5.\<close>

theorem fit_time_limit_exceeded_witness:
  "preprocess_time_limit (TimeSeriesModelBase ''NaiveModel'') example_abstract_model
     (5 - elapsed (example_collaborators\<lparr>elapsed := 10\<rparr>)) = Inr (- 9 / 2) \<and>
   fit (TimeSeriesModelBase ''NaiveModel'') (example_collaborators\<lparr>elapsed := 10\<rparr>) example_fit_hook
     example_abstract_model [1, 2, 3] None (Some 5) 2 [] = Inl TimeLimitExceeded"
proof -
  have b: "preprocess_time_limit (TimeSeriesModelBase ''NaiveModel'') example_abstract_model
     (5 - elapsed (example_collaborators\<lparr>elapsed := 10\<rparr>)) = Inr (- 9 / 2)"
    by (simp add: preprocess_time_limit_def TimeSeriesModelBase_def example_collaborators_def
        example_abstract_model_def dict_get_def)
  have neg: "(- 9 / 2 :: rat) \<le> 0"
    by simp
  show ?thesis
    using fit_time_limit_exceeded [OF b neg, of example_fit_hook "[1, 2, 3]" None 2 "[]"] b
    by simp
qed

text \<open>
  C6. When \<^verbatim>\<open>fit\<close> reaches the training hook (no time limit, or a positive budget), the
  keyword arguments of the call are the system resources \<^verbatim>\<open>num_cpus\<close> and \<^verbatim>\<open>num_gpus\<close>
  updated with the keyword arguments of the caller (a dictionary: each key once): a key of
  the caller has the caller's value, any other key the discovered value.
\<close>

theorem fit_kwargs_precedence:
  assumes "distinct (map fst kwargs)"
    and "case time_limit of None \<Rightarrow> True
         | Some limit \<Rightarrow> (\<exists>b. preprocess_time_limit cls self (limit - elapsed env) = Inr b \<and> 0 < b)"
  shows "\<exists>call self1.
           (\<forall>hook. fit cls env hook self train_data val_data time_limit verbosity kwargs = hook call self1) \<and>
           (\<forall>k. map_of (fc_kwargs call) k =
                  (case map_of kwargs k of
                     Some v \<Rightarrow> Some v
                   | None \<Rightarrow> map_of [(''num_cpus'', PyNum (of_int (get_cpu_count env))),
                                      (''num_gpus'', PyNum (of_int (get_gpu_count env)))] k))"
proof -
  let ?t = "initialize_transforms_and_regressor cls env self"
  define tl1 where "tl1 = (case time_limit of None \<Rightarrow> None
      | Some limit \<Rightarrow> (case preprocess_time_limit cls self (limit - elapsed env) of Inr b \<Rightarrow> Some b | Inl _ \<Rightarrow> None))"
  let ?call = "\<lparr>fc_train_data = fit_train_data cls env ?t train_data,
           fc_val_data = fit_val_data cls env ?t val_data,
           fc_time_limit = tl1,
           fc_verbosity = verbosity,
           fc_kwargs = dict_union (get_system_resources env) kwargs\<rparr>"
  have "\<forall>hook. fit cls env hook self train_data val_data time_limit verbosity kwargs =
          hook ?call (self\<lparr>transforms := Some ?t\<rparr>)"
  proof (cases time_limit)
    case None
    then show ?thesis by (simp add: fit_no_limit tl1_def)
  next
    case (Some limit)
    with assms(2) obtain b where b: "preprocess_time_limit cls self (limit - elapsed env) = Inr b" "0 < b"
      by auto
    then show ?thesis
      using fit_limit [OF b(1)] Some by (simp add: tl1_def)
  qed
  moreover have "\<forall>k. map_of (fc_kwargs ?call) k =
                  (case map_of kwargs k of
                     Some v \<Rightarrow> Some v
                   | None \<Rightarrow> map_of [(''num_cpus'', PyNum (of_int (get_cpu_count env))),
                                      (''num_gpus'', PyNum (of_int (get_gpu_count env)))] k)"
    by (simp add: dict_union_lookup [OF assms(1)] get_system_resources_def split: option.splits)
  ultimately show ?thesis by blast
qed

text \<open>C6, witness: the caller overrides \<^verbatim>\<open>num_gpus\<close> and adds \<^verbatim>\<open>batch_size\<close>.\<close>

theorem fit_kwargs_precedence_witness:
  "\<exists>call self1.
     (\<forall>hook. fit (TimeSeriesModelBase ''NaiveModel'') example_collaborators hook example_abstract_model
               [1, 2, 3] None None 2 [(''num_gpus'', PyNum 1), (''batch_size'', PyNum 32)] = hook call self1) \<and>
     map_of (fc_kwargs call) ''num_cpus'' = Some (PyNum 8) \<and>
     map_of (fc_kwargs call) ''num_gpus'' = Some (PyNum 1) \<and>
     map_of (fc_kwargs call) ''batch_size'' = Some (PyNum 32)"
proof -
  have d: "distinct (map fst [(''num_gpus'', PyNum 1), (''batch_size'', PyNum 32)])"
    by simp
  have t: "case None :: rat option of None \<Rightarrow> True
           | Some limit \<Rightarrow> (\<exists>b. preprocess_time_limit (TimeSeriesModelBase ''NaiveModel'') example_abstract_model
                (limit - elapsed example_collaborators) = Inr b \<and> 0 < b)"
    by simp
  from fit_kwargs_precedence [OF d t, of "[1, 2, 3]" None 2]
  obtain call self1 where
    c: "\<forall>hook. fit (TimeSeriesModelBase ''NaiveModel'') example_collaborators hook example_abstract_model
               [1, 2, 3] None None 2 [(''num_gpus'', PyNum 1), (''batch_size'', PyNum 32)] = hook call self1"
    and k: "\<forall>k. map_of (fc_kwargs call) k =
                  (case map_of [(''num_gpus'', PyNum 1), (''batch_size'', PyNum 32)] k of
                     Some v \<Rightarrow> Some v
                   | None \<Rightarrow> map_of [(''num_cpus'', PyNum (of_int (get_cpu_count example_collaborators))),
                                      (''num_gpus'', PyNum (of_int (get_gpu_count example_collaborators)))] k)"
    by blast
  have "map_of (fc_kwargs call) ''num_cpus'' = Some (PyNum 8)"
    "map_of (fc_kwargs call) ''num_gpus'' = Some (PyNum 1)"
    "map_of (fc_kwargs call) ''batch_size'' = Some (PyNum 32)"
    by (simp_all add: k example_collaborators_def)
  with c show ?thesis by blast
qed

lemma check_fit_params_iff:
  "check_fit_params cls self = Inl ValueError \<longleftrightarrow>
     (\<exists>k n. (k, PySpace n) \<in> set (get_hyperparameters cls self))"
proof -
  have "list_ex (\<lambda>v. case v of PySpace _ \<Rightarrow> True | _ \<Rightarrow> False) (map snd d) \<longleftrightarrow>
          (\<exists>k n. (k, PySpace n) \<in> set d)" for d :: pydict
  proof
    assume "list_ex (\<lambda>v. case v of PySpace _ \<Rightarrow> True | _ \<Rightarrow> False) (map snd d)"
    then obtain k v where "(k, v) \<in> set d" "case v of PySpace _ \<Rightarrow> True | _ \<Rightarrow> False"
      by (auto simp: list_ex_iff)
    then show "\<exists>k n. (k, PySpace n) \<in> set d"
      by (cases v) auto
  next
    assume "\<exists>k n. (k, PySpace n) \<in> set d"
    then obtain k n where kn: "(k, PySpace n) \<in> set d" by blast
    show "list_ex (\<lambda>v. case v of PySpace _ \<Rightarrow> True | _ \<Rightarrow> False) (map snd d)"
      unfolding list_ex_iff set_map
      by (rule bexI [of _ "PySpace n"]) (use kn in force)+
  qed
  then show ?thesis
    by (simp add: check_fit_params_def)
qed

text \<open>
  C5 (as amended). \<^verbatim>\<open>_check_fit_params\<close> raises a \<^verbatim>\<open>ValueError\<close> exactly when a value of the
  hyperparameters (the defaults updated with the user's) is a search space, and returns
  otherwise. \<^verbatim>\<open>fit\<close> does not make this check: without a time limit it calls the training
  hook whatever the hyperparameters are.
\<close>

theorem check_fit_params_spec:
  "(check_fit_params cls self = Inl ValueError \<longleftrightarrow>
      (\<exists>k n. (k, PySpace n) \<in> set (get_hyperparameters cls self))) \<and>
   ((\<forall>k n. (k, PySpace n) \<notin> set (get_hyperparameters cls self)) \<longrightarrow> check_fit_params cls self = Inr ()) \<and>
   (\<exists>call self1. \<forall>hook. fit cls env hook self train_data val_data None verbosity kwargs = hook call self1)"
proof (intro conjI)
  show "check_fit_params cls self = Inl ValueError \<longleftrightarrow>
      (\<exists>k n. (k, PySpace n) \<in> set (get_hyperparameters cls self))"
    by (rule check_fit_params_iff)
  show "(\<forall>k n. (k, PySpace n) \<notin> set (get_hyperparameters cls self)) \<longrightarrow> check_fit_params cls self = Inr ()"
    using check_fit_params_iff [of cls self] by (auto simp: check_fit_params_def)
  show "\<exists>call self1. \<forall>hook. fit cls env hook self train_data val_data None verbosity kwargs = hook call self1"
    using fit_no_limit [of cls env _ self train_data val_data verbosity kwargs] by blast
qed

text \<open>C5, witness: a model with a search space among its hyperparameters, and one without.\<close>

theorem check_fit_params_spec_witness:
  "check_fit_params (TimeSeriesModelBase ''NaiveModel'') example_space_model = Inl ValueError \<and>
   check_fit_params (TimeSeriesModelBase ''NaiveModel'') example_abstract_model = Inr ()"
  using check_fit_params_spec [of "TimeSeriesModelBase ''NaiveModel''" example_space_model]
    check_fit_params_spec [of "TimeSeriesModelBase ''NaiveModel''" example_abstract_model]
  by (simp add: TimeSeriesModelBase_def example_space_model_def example_abstract_model_def
      get_hyperparameters_def dict_union_def check_fit_params_def)

text \<open>
  C5, counterexample: for a model whose hyperparameters hold a search space,
  \<^verbatim>\<open>_check_fit_params\<close> raises and \<^verbatim>\<open>fit\<close> trains: it returns what the hook returns.
\<close>

theorem fit_with_search_space_counterexample:
  "check_fit_params (TimeSeriesModelBase ''NaiveModel'') example_space_model = Inl ValueError \<and>
   (case fit (TimeSeriesModelBase ''NaiveModel'') example_collaborators example_fit_hook example_space_model
          [1, 2, 3] None None 2 [] of
      Inl e \<Rightarrow> False
    | Inr trained \<Rightarrow> fit_time trained = Some 1 \<and> hyperparameters trained = [(KStr ''context_length'', PySpace 0)])"
  by (simp add: fit_def Let_def check_fit_params_def get_hyperparameters_def dict_union_def
      TimeSeriesModelBase_def example_space_model_def example_abstract_model_def example_fit_hook_def)

section \<open>Properties of predict\<close>

lemma columns_reindex:
  "reindex column_order t = Inr t' \<Longrightarrow> columns t' = column_order"
  by (auto simp: reindex_def columns_def comp_def split: if_splits)

lemma reindex_distinct:
  "distinct (columns t) \<Longrightarrow> \<exists>t'. reindex column_order t = Inr t'"
  by (simp add: reindex_def)

lemma columns_setitem:
  "c \<in> set (columns t) \<Longrightarrow> columns (setitem c v t) = columns t"
  by (auto simp: setitem_def columns_def split: prod.splits)

lemma columns_assign_column:
  "assign_column dst src t = Inr t' \<Longrightarrow> dst \<in> set (columns t) \<Longrightarrow> columns t' = columns t"
  by (auto simp: assign_column_def columns_setitem split: option.splits if_splits)

lemma distinct_occurs_once:
  "distinct xs \<Longrightarrow> length (filter (\<lambda>k. k = c) xs) \<le> 1"
proof (induction xs)
  case Nil
  show ?case by simp
next
  case (Cons x xs)
  show ?case
  proof (cases "x = c")
    case True
    with Cons.prems have "c \<notin> set xs" by simp
    then have "filter (\<lambda>k. k = c) xs = []"
      by (auto simp: filter_empty_conv)
    with True show ?thesis by simp
  next
    case False
    with Cons show ?thesis by simp
  qed
qed

lemma assign_column_succeeds:
  "src \<in> set (columns t) \<Longrightarrow> distinct (columns t) \<Longrightarrow> \<exists>t'. assign_column dst src t = Inr t'"
proof -
  assume src: "src \<in> set (columns t)" and d: "distinct (columns t)"
  from src obtain col where "map_of t src = Some col"
    by (cases "map_of t src") (auto simp: columns_def map_of_eq_None_iff)
  moreover have "length (filter (\<lambda>k. k = src) (columns t)) \<le> 1"
    using d by (rule distinct_occurs_once)
  ultimately show ?thesis
    by (simp add: assign_column_def)
qed

lemma columns_drop_column:
  "columns (drop_column c t) = filter (\<lambda>k. k \<noteq> c) (columns t)"
  by (induction t) (auto simp: drop_column_def columns_def)

lemma filter_absent: "c \<notin> set xs \<Longrightarrow> filter (\<lambda>k. k \<noteq> c) xs = xs"
  by (induction xs) auto

lemma columns_reconcile:
  assumes "reconcile_columns (''mean'' # qcols) by_median drop_median raw = Inr p"
  shows "columns p = (if drop_median then filter (\<lambda>k. k \<noteq> ''0.5'') (''mean'' # qcols) else ''mean'' # qcols)"
proof -
  let ?co = "''mean'' # qcols"
  from assms obtain p1 where
    p1: "(if columns raw \<noteq> ?co then reindex ?co raw else Inr raw) = Inr p1"
    by (auto simp: reconcile_columns_def split: sum.splits)
  have c1: "columns p1 = ?co"
  proof (cases "columns raw \<noteq> ?co")
    case True
    with p1 show ?thesis by (simp add: columns_reindex)
  next
    case False
    with p1 show ?thesis by auto
  qed
  show ?thesis
  proof (cases "''0.5'' \<in> set (columns p1)")
    case False
    with assms p1 have "p = p1"
      by (simp add: reconcile_columns_def)
    with c1 False show ?thesis
      by (simp add: filter_absent)
  next
    case True
    with assms p1 obtain p2 where
      p2: "(if by_median then assign_column ''mean'' ''0.5'' p1 else Inr p1) = Inr p2"
      and p: "p = (if drop_median then drop_column ''0.5'' p2 else p2)"
      by (auto simp: reconcile_columns_def split: sum.splits)
    have "columns p2 = columns p1"
    proof (cases by_median)
      case True
      with p2 c1 show ?thesis
        by (simp add: columns_assign_column)
    next
      case False
      with p2 show ?thesis by simp
    qed
    with c1 p show ?thesis
      by (simp add: columns_drop_column)
  qed
qed

lemma reconcile_succeeds:
  assumes "distinct (columns raw)" and "distinct (''mean'' # qcols)"
  shows "\<exists>p. reconcile_columns (''mean'' # qcols) by_median drop_median raw = Inr p"
proof -
  let ?co = "''mean'' # qcols"
  obtain p1 where p1: "(if columns raw \<noteq> ?co then reindex ?co raw else Inr raw) = Inr p1"
    using reindex_distinct [OF assms(1), of ?co] by (cases "columns raw \<noteq> ?co") auto
  have c1: "columns p1 = ?co"
  proof (cases "columns raw \<noteq> ?co")
    case True
    with p1 show ?thesis by (simp add: columns_reindex)
  next
    case False
    with p1 show ?thesis by auto
  qed
  show ?thesis
  proof (cases "''0.5'' \<in> set (columns p1)")
    case False
    with p1 show ?thesis
      by (simp add: reconcile_columns_def)
  next
    case True
    have "distinct (columns p1)"
      using assms(2) c1 by simp
    from assign_column_succeeds [OF True this, of "''mean''"]
    obtain p2 where "assign_column ''mean'' ''0.5'' p1 = Inr p2" by blast
    with p1 True show ?thesis
      by (simp add: reconcile_columns_def)
  qed
qed

lemma columns_inverse_transforms:
  assumes "\<forall>s. target_scaler t = Some s \<longrightarrow> (\<forall>x. columns (ts_inverse_transform s x) = columns x)"
    and "\<forall>r. covariate_regressor t = Some r \<longrightarrow> (\<forall>x k d. columns (cr_inverse_transform r x k d) = columns x)"
  shows "columns (inverse_transforms env t p known data) = columns p"
  using assms by (simp add: inverse_transforms_def Let_def split: option.splits)

lemma predict_unfold:
  assumes "transforms self = Some t"
  shows "predict env hook self data known kwargs =
     (case hook (self\<lparr>transforms := Some (t\<lparr>covariate_regressor := None\<rparr>)\<rparr>)
             (fst (predict_inputs env t data known)) (snd (predict_inputs env t data known)) kwargs of
        Inl e \<Rightarrow> Inl e
      | Inr raw \<Rightarrow>
          (case reconcile_columns (''mean'' # map (str_float env) (quantile_levels self))
                  (optimized_by_median (eval_metric self)) (must_drop_median self) raw of
             Inl e \<Rightarrow> Inl e
           | Inr p \<Rightarrow>
               Inr (inverse_transforms env t p (snd (predict_inputs env t data known))
                      (fst (predict_inputs env t data known)), self)))"
proof -
  have restore: "self\<lparr>transforms := Some t\<rparr> = self"
    using assms [symmetric] by simp
  show ?thesis
    by (simp add: predict_def assms Let_def restore cong: sum.case_cong)
qed

text \<open>
  C2 (as amended). For a fitted model whose inverse transforms keep the column labels: a table
  returned by \<^verbatim>\<open>predict\<close> has the columns \<^verbatim>\<open>mean\<close> followed by \<^verbatim>\<open>str(q)\<close> for each stored
  quantile level \<open>q\<close>, in the order in which the levels are stored, whatever columns the
  prediction hook emitted; when \<^verbatim>\<open>must_drop_median\<close> is true the column \<^verbatim>\<open>0.5\<close> is removed
  from them and absent from the table; the instance is as before the call. When the hook
  returns tables with distinct labels and the column order has no duplicate, \<^verbatim>\<open>predict\<close>
  returns a table: columns that are missing are created, not an error.
\<close>

theorem predict_columns:
  assumes fitted: "transforms self = Some t"
    and scaler: "\<forall>s. target_scaler t = Some s \<longrightarrow> (\<forall>x. columns (ts_inverse_transform s x) = columns x)"
    and regressor: "\<forall>r. covariate_regressor t = Some r \<longrightarrow>
                      (\<forall>x k d. columns (cr_inverse_transform r x k d) = columns x)"
  shows "(\<forall>p self'. predict env hook self data known kwargs = Inr (p, self') \<longrightarrow>
            columns p = (if must_drop_median self
                         then filter (\<lambda>k. k \<noteq> ''0.5'') (''mean'' # map (str_float env) (quantile_levels self))
                         else ''mean'' # map (str_float env) (quantile_levels self)) \<and>
            (must_drop_median self \<longrightarrow> ''0.5'' \<notin> set (columns p)) \<and>
            self' = self) \<and>
         ((\<forall>s d k kw. \<exists>raw. hook s d k kw = Inr raw \<and> distinct (columns raw)) \<and>
          distinct (''mean'' # map (str_float env) (quantile_levels self)) \<longrightarrow>
            (\<exists>p. predict env hook self data known kwargs = Inr (p, self)))"
proof (rule conjI)
  let ?co = "''mean'' # map (str_float env) (quantile_levels self)"
  let ?in = "predict_inputs env t data known"
  show "\<forall>p self'. predict env hook self data known kwargs = Inr (p, self') \<longrightarrow>
            columns p = (if must_drop_median self then filter (\<lambda>k. k \<noteq> ''0.5'') ?co else ?co) \<and>
            (must_drop_median self \<longrightarrow> ''0.5'' \<notin> set (columns p)) \<and>
            self' = self"
  proof (intro allI impI)
    fix p self'
    assume ok: "predict env hook self data known kwargs = Inr (p, self')"
    have unfolded: "(case hook (self\<lparr>transforms := Some (t\<lparr>covariate_regressor := None\<rparr>)\<rparr>)
             (fst ?in) (snd ?in) kwargs of
        Inl e \<Rightarrow> Inl e
      | Inr raw \<Rightarrow>
          (case reconcile_columns ?co (optimized_by_median (eval_metric self)) (must_drop_median self) raw of
             Inl e \<Rightarrow> Inl e
           | Inr p \<Rightarrow> Inr (inverse_transforms env t p (snd ?in) (fst ?in), self))) = Inr (p, self')"
      using ok by (simp only: predict_unfold [OF fitted])
    then obtain raw where raw: "hook (self\<lparr>transforms := Some (t\<lparr>covariate_regressor := None\<rparr>)\<rparr>)
             (fst ?in) (snd ?in) kwargs = Inr raw"
      by (cases "hook (self\<lparr>transforms := Some (t\<lparr>covariate_regressor := None\<rparr>)\<rparr>)
             (fst ?in) (snd ?in) kwargs") simp_all
    with unfolded have reconciled: "(case reconcile_columns ?co (optimized_by_median (eval_metric self)) (must_drop_median self) raw of
             Inl e \<Rightarrow> Inl e
           | Inr p \<Rightarrow> Inr (inverse_transforms env t p (snd ?in) (fst ?in), self)) = Inr (p, self')"
      by (simp only: sum.case)
    then obtain p3 where
      p3: "reconcile_columns ?co (optimized_by_median (eval_metric self)) (must_drop_median self) raw = Inr p3"
      by (cases "reconcile_columns ?co (optimized_by_median (eval_metric self)) (must_drop_median self) raw")
         simp_all
    with reconciled have p: "p = inverse_transforms env t p3 (snd ?in) (fst ?in)" and s: "self' = self"
      by (simp_all only: sum.case sum.inject prod.inject)
    from p3
    have "columns p3 = (if must_drop_median self then filter (\<lambda>k. k \<noteq> ''0.5'') ?co else ?co)"
      by (simp add: columns_reconcile)
    moreover have "columns p = columns p3"
      unfolding p by (rule columns_inverse_transforms [OF scaler regressor])
    ultimately have c: "columns p = (if must_drop_median self then filter (\<lambda>k. k \<noteq> ''0.5'') ?co else ?co)"
      by simp
    then have "must_drop_median self \<longrightarrow> ''0.5'' \<notin> set (columns p)"
      by simp
    with c s show "columns p = (if must_drop_median self then filter (\<lambda>k. k \<noteq> ''0.5'') ?co else ?co) \<and>
            (must_drop_median self \<longrightarrow> ''0.5'' \<notin> set (columns p)) \<and> self' = self"
      by blast
  qed
next
  let ?co = "''mean'' # map (str_float env) (quantile_levels self)"
  let ?in = "predict_inputs env t data known"
  show "(\<forall>s d k kw. \<exists>raw. hook s d k kw = Inr raw \<and> distinct (columns raw)) \<and> distinct ?co \<longrightarrow>
            (\<exists>p. predict env hook self data known kwargs = Inr (p, self))"
  proof
    assume a: "(\<forall>s d k kw. \<exists>raw. hook s d k kw = Inr raw \<and> distinct (columns raw)) \<and> distinct ?co"
    then obtain raw where raw: "hook (self\<lparr>transforms := Some (t\<lparr>covariate_regressor := None\<rparr>)\<rparr>)
             (fst ?in) (snd ?in) kwargs = Inr raw" "distinct (columns raw)"
      by blast
    from reconcile_succeeds [OF raw(2)] a obtain p3 where
      "reconcile_columns ?co (optimized_by_median (eval_metric self)) (must_drop_median self) raw = Inr p3"
      by blast
    with raw(1) show "\<exists>p. predict env hook self data known kwargs = Inr (p, self)"
      by (simp only: predict_unfold [OF fitted] sum.case) blast
  qed
qed

lemma example_target_scaler_columns:
  "columns (ts_inverse_transform example_target_scaler x) = columns x"
  by (simp add: example_target_scaler_def columns_def comp_def case_prod_unfold)

lemma example_str_float:
  "str_float example_collaborators (1 / 10) = ''0.1''"
  "str_float example_collaborators (1 / 2) = ''0.5''"
  "str_float example_collaborators (9 / 10) = ''0.9''"
  by (simp_all add: example_collaborators_def)

text \<open>
  C2, witness: the levels 0.1, 0.5, 0.9 with a synthetic median and a target scaler; the hook
  emits \<^verbatim>\<open>0.1\<close>, \<^verbatim>\<open>mean\<close>, \<^verbatim>\<open>0.5\<close>, \<^verbatim>\<open>extra\<close>, and \<^verbatim>\<open>predict\<close> returns \<^verbatim>\<open>mean\<close>, \<^verbatim>\<open>0.1\<close>, \<^verbatim>\<open>0.9\<close>.
\<close>

theorem predict_columns_witness:
  "\<exists>p. predict example_collaborators example_predict_hook example_forecaster [1, 2, 3] None [] =
          Inr (p, example_forecaster) \<and>
        columns p = [''mean'', ''0.1'', ''0.9''] \<and> ''0.5'' \<notin> set (columns p)"
proof -
  let ?t = "\<lparr>target_scaler = Some example_target_scaler,
             covariate_scaler = None :: rat list covariate_scaler option,
             covariate_regressor = None :: (rat list, rat list) covariate_regressor option\<rparr>"
  have fitted: "transforms example_forecaster = Some ?t"
    by (simp add: example_forecaster_def)
  have scaler: "\<forall>s. target_scaler ?t = Some s \<longrightarrow> (\<forall>x. columns (ts_inverse_transform s x) = columns x)"
    by (simp add: example_target_scaler_columns)
  have regressor: "\<forall>r. covariate_regressor ?t = Some r \<longrightarrow>
                      (\<forall>x k d. columns (cr_inverse_transform r x k d) = columns x)"
    by simp
  have levels: "quantile_levels example_forecaster = [1 / 10, 1 / 2, 9 / 10]"
    and drop: "must_drop_median example_forecaster"
    by (simp_all add: example_forecaster_def)
  have hook: "\<forall>s d k kw. \<exists>raw. example_predict_hook s d k kw = Inr raw \<and> distinct (columns raw)"
    by (simp add: example_predict_hook_def columns_def)
  have order: "distinct (''mean'' # map (str_float example_collaborators) (quantile_levels example_forecaster))"
    by (simp add: levels example_str_float)
  note inst = predict_columns [OF fitted scaler regressor, of example_collaborators example_predict_hook
      "[1, 2, 3]" None "[]"]
  from inst hook order obtain p where
    p: "predict example_collaborators example_predict_hook example_forecaster [1, 2, 3] None [] =
          Inr (p, example_forecaster)"
    by blast
  with inst have "columns p = filter (\<lambda>k. k \<noteq> ''0.5'')
                   (''mean'' # map (str_float example_collaborators) (quantile_levels example_forecaster))"
    using drop by simp
  then have "columns p = [''mean'', ''0.1'', ''0.9'']"
    by (simp add: levels example_str_float)
  with p show ?thesis by simp
qed

text \<open>
  C2, counterexample: the constructor stores the levels 0.9, 0.5, 0.1 as they are given, and
  \<^verbatim>\<open>predict\<close> returns the columns \<^verbatim>\<open>mean\<close>, \<^verbatim>\<open>0.9\<close>, \<^verbatim>\<open>0.5\<close>, \<^verbatim>\<open>0.1\<close>: the order of the stored
  levels, not their sorted order.
\<close>

theorem predict_columns_sorted_counterexample:
  "snd (abstract_init (TimeSeriesModelBase ''NaiveModel'') example_init_env (Some ''out'') None None
          (Some ''D'') 1 None ''target'' [9 / 10, 1 / 2, 1 / 10] ()) =
     Inr (example_unsorted_forecaster\<lparr>transforms := None\<rparr>) \<and>
   (case predict example_collaborators example_predict_hook example_unsorted_forecaster [1, 2, 3] None [] of
      Inl e \<Rightarrow> False
    | Inr (p, self') \<Rightarrow>
        columns p = [''mean'', ''0.9'', ''0.5'', ''0.1''] \<and>
        columns p \<noteq> ''mean'' # map (str_float example_collaborators)
                               (sort (quantile_levels example_unsorted_forecaster)))"
proof (rule conjI)
  show "snd (abstract_init (TimeSeriesModelBase ''NaiveModel'') example_init_env (Some ''out'') None None
          (Some ''D'') 1 None ''target'' [9 / 10, 1 / 2, 1 / 10] ()) =
     Inr (example_unsorted_forecaster\<lparr>transforms := None\<rparr>)"
    by (simp add: abstract_init_def init_def Let_def TimeSeriesModelBase_def example_init_env_def
        example_unsorted_forecaster_def strip_Model_def init_quantile_levels_def
        check_and_split_hyperparameters_def dict_pop_def path_join_def CovariateMetadata_def
        model_base.extend_def split: prod.splits)
next
  have levels: "quantile_levels example_unsorted_forecaster = [9 / 10, 1 / 2, 1 / 10]"
    by (simp add: example_unsorted_forecaster_def)
  have sorted_levels: "sort [9 / 10, 1 / 2, 1 / 10 :: rat] = [1 / 10, 1 / 2, 9 / 10]"
    by simp
  have fitted: "transforms example_unsorted_forecaster =
      Some \<lparr>target_scaler = None, covariate_scaler = None, covariate_regressor = None\<rparr>"
    by (simp add: example_unsorted_forecaster_def)
  have meta: "optimized_by_median (eval_metric example_unsorted_forecaster) = False"
    "must_drop_median example_unsorted_forecaster = False"
    by (simp_all add: example_unsorted_forecaster_def)
  have rec: "reconcile_columns [''mean'', ''0.9'', ''0.5'', ''0.1''] False False
       [(''0.1'', Some [1]), (''mean'', Some [2]), (''0.5'', Some [3]), (''extra'', Some [9 :: rat])] =
     Inr [(''mean'', Some [2]), (''0.9'', None), (''0.5'', Some [3]), (''0.1'', Some [1])]"
    by (simp add: reconcile_columns_def reindex_def columns_def)
  show "case predict example_collaborators example_predict_hook example_unsorted_forecaster [1, 2, 3] None [] of
      Inl e \<Rightarrow> False
    | Inr (p, self') \<Rightarrow>
        columns p = [''mean'', ''0.9'', ''0.5'', ''0.1''] \<and>
        columns p \<noteq> ''mean'' # map (str_float example_collaborators)
                               (sort (quantile_levels example_unsorted_forecaster))"
    by (simp add: predict_unfold [OF fitted] example_predict_hook_def levels sorted_levels
        example_str_float meta rec inverse_transforms_def columns_def)
qed

end
